theory Spec2Isabelle
  imports Complex_Main "HOL-Library.Word" "HOL-Library.Sublist" "HOL-Library.AList"
    "HOL-Library.Char_ord" "HOL-Library.List_Lexorder"
begin

section \<open>Data model of \<^verbatim>\<open>src/backend/extractor.py\<close>\<close>

text \<open>
  The input stream consists of tuples \<^verbatim>\<open>(name, ts, image)\<close>. An image is an
  \<^verbatim>\<open>H x W x C\<close> array (rows of pixels of channels) of one dtype. A pixel value of
  an integer dtype is a Python integer, which is unbounded; a pixel value of a
  floating-point dtype is a number that the code hands to numpy unread. The timestamp is
  never inspected by the code and stays polymorphic.
\<close>

datatype pixel = IntPixel int | FloatPixel real

type_synonym image = "pixel list list list"

type_synonym 'ts plot_tuple = "string \<times> 'ts \<times> image"

text \<open>An image of an integer dtype.\<close>

definition int_image :: "int list list list \<Rightarrow> image" where
  "int_image x = map (map (map IntPixel)) x"

text \<open>
  A batch is the tuple \<^verbatim>\<open>(name_batch, ts_batch, image_batch)\<close> that the generator
  yields; the image batch is an \<^verbatim>\<open>n x H x W x C\<close> array of unsigned 8-bit integers.
\<close>

type_synonym uint8 = "8 word"

type_synonym uint8_array = "uint8 list list list list"

type_synonym 'ts tuple_batch = "string list \<times> 'ts list \<times> uint8_array"

datatype py_error =
    ZeroDivisionError
  | TypeError
  | IndexError
  | KeyError
  | AttributeError
  | ValueError
  | Exception
  | AssertionError string

text \<open>
  The three sizes of an array of rank 3 given by its nested lists, and whether the nested
  lists are an array at all: every row as long as the first, every pixel with as many
  channels as the first.
\<close>

definition dims3 :: "'a list list list \<Rightarrow> nat list" where
  "dims3 x =
     (case x of
        [] \<Rightarrow> [0, 0, 0]
      | p # _ \<Rightarrow>
          (case p of
             [] \<Rightarrow> [length x, 0, 0]
           | q # _ \<Rightarrow> [length x, length p, length q]))"

definition rect3 :: "'a list list list \<Rightarrow> bool" where
  "rect3 x \<longleftrightarrow>
     list_all (\<lambda>p. length p = dims3 x ! 1 \<and> list_all (\<lambda>q. length q = dims3 x ! 2) p) x"

section \<open>\<^verbatim>\<open>_batch_images\<close>\<close>

text \<open>
  \<^verbatim>\<open>np.array(current_image_batch, dtype=np.uint8)\<close> stacks the buffered images along
  a new first axis and casts every element to \<^verbatim>\<open>uint8\<close>. Stacking needs images of
  one shape: when the buffered images differ in shape, numpy raises
  \<^verbatim>\<open>ValueError\<close>. The cast of an integer keeps its low eight bits; the cast of a
  floating-point number is the conversion of the platform, a parameter here.
\<close>

definition astype_uint8 :: "(real \<Rightarrow> uint8) \<Rightarrow> pixel \<Rightarrow> uint8" where
  "astype_uint8 float_to_uint8 p =
     (case p of IntPixel v \<Rightarrow> word_of_int v | FloatPixel x \<Rightarrow> float_to_uint8 x)"

definition cast_images :: "(real \<Rightarrow> uint8) \<Rightarrow> image list \<Rightarrow> uint8_array" where
  "cast_images float_to_uint8 imgs = map (map (map (map (astype_uint8 float_to_uint8)))) imgs"

definition same_shape :: "image list \<Rightarrow> bool" where
  "same_shape imgs \<longleftrightarrow> list_all (\<lambda>x. rect3 x \<and> dims3 x = dims3 (hd imgs)) imgs"

definition np_array_uint8 :: "(real \<Rightarrow> uint8) \<Rightarrow> image list \<Rightarrow> py_error + uint8_array" where
  "np_array_uint8 float_to_uint8 imgs =
     (if same_shape imgs then Inr (cast_images float_to_uint8 imgs) else Inl ValueError)"

text \<open>
  The body of the generator: the \<^verbatim>\<open>for\<close> loop over the input with the three
  buffers and the running index, followed by the code after the loop. The result is the
  list of the batches yielded, in order, together with the exception that ended the run,
  if one did. \<^verbatim>\<open>(index + 1) % batch_size\<close> raises \<^verbatim>\<open>ZeroDivisionError\<close> for
  \<^verbatim>\<open>batch_size == 0\<close>, at the first input tuple; \<^verbatim>\<open>np.array\<close> raises
  \<^verbatim>\<open>ValueError\<close> at either yield site, before the batch is yielded and after the
  batches before it have been.
\<close>

fun batch_loop ::
  "(real \<Rightarrow> uint8) \<Rightarrow> int \<Rightarrow> 'ts plot_tuple list \<Rightarrow> string list \<Rightarrow> 'ts list \<Rightarrow> image list
    \<Rightarrow> int \<Rightarrow> 'ts tuple_batch list \<times> py_error option" where
  "batch_loop float_to_uint8 batch_size []
       current_name_batch current_ts_batch current_image_batch index =
     (if current_name_batch \<noteq> []
      then (case np_array_uint8 float_to_uint8 current_image_batch of
              Inl e \<Rightarrow> ([], Some e)
            | Inr image_batch \<Rightarrow>
                ([(current_name_batch, current_ts_batch, image_batch)], None))
      else ([], None))"
| "batch_loop float_to_uint8 batch_size ((name, ts, img) # images)
       current_name_batch current_ts_batch current_image_batch index =
     (let current_name_batch = current_name_batch @ [name];
          current_ts_batch = current_ts_batch @ [ts];
          current_image_batch = current_image_batch @ [img]
      in if batch_size = 0 then ([], Some ZeroDivisionError)
         else if (index + 1) mod batch_size = 0
         then (case np_array_uint8 float_to_uint8 current_image_batch of
                 Inl e \<Rightarrow> ([], Some e)
               | Inr image_batch \<Rightarrow>
                   (case batch_loop float_to_uint8 batch_size images [] [] [] (index + 1) of
                      (rest, raised) \<Rightarrow>
                        ((current_name_batch, current_ts_batch, image_batch) # rest, raised)))
         else batch_loop float_to_uint8 batch_size images
                current_name_batch current_ts_batch current_image_batch (index + 1))"

definition batch_images ::
  "(real \<Rightarrow> uint8) \<Rightarrow> 'ts plot_tuple list \<Rightarrow> int \<Rightarrow> 'ts tuple_batch list \<times> py_error option" where
  "batch_images float_to_uint8 images batch_size =
     batch_loop float_to_uint8 batch_size images [] [] [] 0"

text \<open>Projections of a batch, and the number of samples each of its three fields holds.\<close>

definition name_batch :: "'ts tuple_batch \<Rightarrow> string list" where
  "name_batch b = fst b"

definition ts_batch :: "'ts tuple_batch \<Rightarrow> 'ts list" where
  "ts_batch b = fst (snd b)"

definition image_batch :: "'ts tuple_batch \<Rightarrow> uint8_array" where
  "image_batch b = snd (snd b)"


text \<open>The images of a stream, and the unsigned values held in an image batch.\<close>

definition images_of :: "'ts plot_tuple list \<Rightarrow> image list" where
  "images_of stream = map (\<lambda>t. snd (snd t)) stream"

definition pixel_values :: "uint8_array \<Rightarrow> int list list list list" where
  "pixel_values a = map (map (map (map uint))) a"

text \<open>
  The end-to-end scenario of the specification: five samples \<^verbatim>\<open>a\<close> to \<^verbatim>\<open>e\<close>,
  each a one-pixel image with three channels, with values outside the range of a byte.
\<close>

definition scenario_images :: "int plot_tuple list" where
  "scenario_images =
     [(''a'', 0, int_image [[[0, 255, 263]]]), (''b'', 1, int_image [[[1, 2, 3]]]),
      (''c'', 2, int_image [[[-1, 300, 7]]]), (''d'', 3, int_image [[[4, 5, 6]]]),
      (''e'', 4, int_image [[[511, 512, 1000]]])]"


definition float_images :: "int plot_tuple list" where
  "float_images =
     [(''a'', 0, [[[FloatPixel 0, FloatPixel (1 / 2), FloatPixel 7]]]),
      (''b'', 1, [[[FloatPixel 1, FloatPixel 2, FloatPixel 3]]])]"

section \<open>Python strings, lists and dictionaries\<close>

text \<open>
  \<^verbatim>\<open>ending in tensor_name\<close> on two strings: the left string occurs in the right one
  as a contiguous run of characters, at any position.
\<close>

fun py_in_str :: "string \<Rightarrow> string \<Rightarrow> bool" where
  "py_in_str e [] = (e = [])"
| "py_in_str e (c # cs) = (prefix e (c # cs) \<or> py_in_str e cs)"

text \<open>
  \<^verbatim>\<open>s.split(sep)\<close> for a one-character separator: the result is never empty, and an
  empty field stands between two adjacent separators.
\<close>

fun py_split :: "char \<Rightarrow> string \<Rightarrow> string list" where
  "py_split sep [] = [[]]"
| "py_split sep (c # cs) =
     (if c = sep then [] # py_split sep cs
      else (case py_split sep cs of
              [] \<Rightarrow> [[c]]
            | field # fields \<Rightarrow> (c # field) # fields))"

text \<open>\<^verbatim>\<open>s[:-2]\<close>: all but the last two characters (nothing, for a shorter string).\<close>

definition drop_last2 :: "string \<Rightarrow> string" where
  "drop_last2 s = take (length s - 2) s"

text \<open>
  \<^verbatim>\<open>repr\<close> of a string without quotes, backslashes or control characters (as layer
  names are) and of a list of such strings, the text that \<^verbatim>\<open>format\<close> and an f-string
  insert for a list.
\<close>

definition quote :: char where
  "quote = CHR 0x27"

definition py_repr_str :: "string \<Rightarrow> string" where
  "py_repr_str s = quote # s @ [quote]"

fun py_join :: "string \<Rightarrow> string list \<Rightarrow> string" where
  "py_join sep [] = []"
| "py_join sep [x] = x"
| "py_join sep (x # y # ys) = x @ sep @ py_join sep (y # ys)"

definition py_repr_list :: "string list \<Rightarrow> string" where
  "py_repr_list xs = ''['' @ py_join '', '' (map py_repr_str xs) @ '']''"

text \<open>
  \<^verbatim>\<open>re.match(r'^(\w+)/*', s)\<close>: group 1 is the longest run of word characters at the
  start of \<open>s\<close> (the slashes after it may be none, so nothing is given back); there is
  no match when \<open>s\<close> does not start with a word character. Names are ASCII: a word
  character is a letter, a digit or the underscore.
\<close>

definition is_word_char :: "char \<Rightarrow> bool" where
  "is_word_char c \<longleftrightarrow>
     (let n = (of_char c :: nat)
      in (48 \<le> n \<and> n \<le> 57) \<or> (65 \<le> n \<and> n \<le> 90) \<or> (97 \<le> n \<and> n \<le> 122) \<or> n = 95)"

definition re_match_prefix :: "string \<Rightarrow> string option" where
  "re_match_prefix s =
     (case takeWhile is_word_char s of [] \<Rightarrow> None | w # ws \<Rightarrow> Some (w # ws))"

section \<open>Arrays of feature values\<close>

text \<open>
  An array of any rank: its shape and its elements in row-major order. The element type
  stands for the floating-point numbers a network computes; the code never calculates
  with them.
\<close>

datatype 'v ndarray = NdArray (shape: "nat list") (elems: "'v list")

text \<open>
  Iterating over an array (as \<^verbatim>\<open>zip\<close> does) yields its sub-arrays along the first
  axis; an array of rank 0 cannot be iterated.
\<close>

fun chunks_of :: "nat \<Rightarrow> nat \<Rightarrow> 'v list \<Rightarrow> 'v list list" where
  "chunks_of 0 k xs = []"
| "chunks_of (Suc n) k xs = take k xs # chunks_of n k (drop k xs)"

definition rows :: "'v ndarray \<Rightarrow> py_error + 'v ndarray list" where
  "rows a =
     (case shape a of
        [] \<Rightarrow> Inl TypeError
      | n # rest \<Rightarrow> Inr (map (NdArray rest) (chunks_of n (prod_list rest) (elems a))))"

text \<open>
  \<^verbatim>\<open>tf.reshape(net_output, [-1, dim])\<close> with
  \<^verbatim>\<open>dim = tf.reduce_prod(tf.shape(net_output)[1:])\<close>: the missing size cannot be
  inferred when \<open>dim\<close> is 0.
\<close>

definition tf_flatten :: "'v ndarray \<Rightarrow> py_error + 'v ndarray" where
  "tf_flatten a =
     (let dim = prod_list (tl (shape a))
      in if dim = 0 then Inl ValueError
         else Inr (NdArray [length (elems a) div dim, dim] (elems a)))"

text \<open>
  \<^verbatim>\<open>np.reshape(feature_batch, [-1, dim])\<close> with
  \<^verbatim>\<open>dim = np.prod(feature_batch.shape[1:])\<close>: the product of an empty tuple is the
  float \<^verbatim>\<open>1.0\<close>, which \<^verbatim>\<open>reshape\<close> rejects with a \<^verbatim>\<open>TypeError\<close>.
\<close>

definition np_flatten :: "'v ndarray \<Rightarrow> py_error + 'v ndarray" where
  "np_flatten a =
     (let dim = prod_list (tl (shape a))
      in if tl (shape a) = [] then Inl TypeError
         else if dim = 0 then Inl ValueError
         else Inr (NdArray [length (elems a) div dim, dim] (elems a)))"

text \<open>
  \<^verbatim>\<open>zip(name_batch, ts_batch, feature_batch)\<close>, stopping with the shortest of the
  three. A feature record is the triple \<^verbatim>\<open>(name, timestamp, features)\<close>; the named
  tuple \<^verbatim>\<open>FeatureTuple\<close> and the plain tuple of the legacy variant hold the same three
  positions.
\<close>

type_synonym ('ts, 'v) FeatureTuple = "string \<times> 'ts \<times> 'v ndarray"

fun zip3 :: "'a list \<Rightarrow> 'b list \<Rightarrow> 'c list \<Rightarrow> ('a \<times> 'b \<times> 'c) list" where
  "zip3 (a # as) (b # bs) (c # cs) = (a, b, c) # zip3 as bs cs"
| "zip3 _ _ _ = []"

section \<open>The base class \<^verbatim>\<open>Extractor\<close>\<close>

text \<open>
  \<^verbatim>\<open>_batch_images\<close> contains \<^verbatim>\<open>yield\<close>, so calling it runs none of its body and
  returns a generator object that holds the two arguments; the batches come into being
  only when the generator is advanced. Advancing it to the end gives the batches of
  \<open>batch_images\<close>.
\<close>

datatype 'ts generator = Generator "'ts plot_tuple list" int

definition generator_batches ::
  "(real \<Rightarrow> uint8) \<Rightarrow> 'ts generator \<Rightarrow> 'ts tuple_batch list \<times> py_error option" where
  "generator_batches float_to_uint8 g =
     (case g of Generator images batch_size \<Rightarrow> batch_images float_to_uint8 images batch_size)"

text \<open>
  The built-in \<^verbatim>\<open>len\<close> calls the \<^verbatim>\<open>__len__\<close> method of its argument's type and
  raises \<^verbatim>\<open>TypeError\<close> when the type has none. Lists have one; generator objects
  have none.
\<close>

datatype 'ts py_value = PyList "'ts tuple_batch list" | PyGenerator "'ts generator"

fun py_len :: "'ts py_value \<Rightarrow> py_error + nat" where
  "py_len (PyList xs) = Inr (length xs)"
| "py_len (PyGenerator g) = Inl TypeError"

record 'ts Extractor =
  images :: "'ts py_value"

definition Extractor_init :: "'ts plot_tuple list \<Rightarrow> int \<Rightarrow> 'ts Extractor" where
  "Extractor_init imgs batch_size = \<lparr>images = PyGenerator (Generator imgs batch_size)\<rparr>"

definition Extractor_len :: "('ts, 'more) Extractor_scheme \<Rightarrow> py_error + nat" where
  "Extractor_len self = py_len (images self)"

section \<open>The graph-based variant \<^verbatim>\<open>TensorFlowExtractor\<close>\<close>

text \<open>
  The frozen graph file is outside the code: it is given by the names of its nodes, in
  order, and by the value each node's first output takes when the input placeholder is fed
  an image batch (keyed by the tensor's name in the imported graph).
  \<^verbatim>\<open>import_graph_def(graph_def, name="extractor")\<close> puts every node under the name
  scope \<^verbatim>\<open>extractor\<close>.
\<close>

record 'v graph_def =
  node :: "string list"
  node_value :: "string \<Rightarrow> uint8_array \<Rightarrow> 'v ndarray"

record 'v tf_graph =
  operations :: "string list"
  run :: "string \<Rightarrow> uint8_array \<Rightarrow> 'v ndarray"

definition load_graph :: "'v graph_def \<Rightarrow> 'v tf_graph" where
  "load_graph gd = \<lparr>operations = map (\<lambda>n. ''extractor/'' @ n) (node gd), run = node_value gd\<rparr>"

text \<open>
  \<^verbatim>\<open>graph.get_tensor_by_name(name)\<close>: the tensor \<^verbatim>\<open>op:0\<close> exists when the graph
  has the operation \<^verbatim>\<open>op\<close>; a tensor is identified by its name.
\<close>

definition get_tensor_by_name :: "'v tf_graph \<Rightarrow> string \<Rightarrow> py_error + string" where
  "get_tensor_by_name g name =
     (if name \<in> set (map (\<lambda>op. op @ '':0'') (operations g)) then Inr name else Inl KeyError)"

definition ignored_tensor_endings :: "string list" where
  "ignored_tensor_endings =
     [''weights'', ''bias'', ''MatMul'', ''BiasAdd'', ''read'', ''size'', ''prob'', ''stack'',
      ''strided_slice'', ''shape'', ''axis'', ''input'', ''concat'', ''Conv2D'', ''split'',
      ''norm'']"

definition ignore_tensor :: "string \<Rightarrow> bool" where
  "ignore_tensor tensor_name =
     list_ex (\<lambda>ending. py_in_str ending tensor_name) ignored_tensor_endings"

text \<open>
  The key of a tensor in \<^verbatim>\<open>layer_dict\<close>:
  \<^verbatim>\<open>tensor_name.split('/')[-1][:-2]\<close>.
\<close>

definition layer_key :: "string \<Rightarrow> string" where
  "layer_key tensor_name = drop_last2 (last (py_split CHR ''/'' tensor_name))"

text \<open>
  The dictionary comprehension: the tensors are entered in order, a later tensor with the
  same key replacing the value of an earlier one. Every tensor name in the comprehension
  comes from an operation of the graph, so its lookup succeeds.
\<close>

fun layer_dict_of :: "string list \<Rightarrow> (string \<times> string) list \<Rightarrow> (string \<times> string) list" where
  "layer_dict_of [] d = d"
| "layer_dict_of (tensor_name # rest) d =
     layer_dict_of rest (AList.update (layer_key tensor_name) tensor_name d)"

definition input_and_layers :: "'v tf_graph \<Rightarrow> py_error + (string \<times> (string \<times> string) list)" where
  "input_and_layers g =
     (let tensor_names = map (\<lambda>op. op @ '':0'') (filter (\<lambda>op. \<not> ignore_tensor op) (operations g))
      in case tensor_names of
           [] \<Rightarrow> Inl IndexError
         | first # _ \<Rightarrow>
             (case re_match_prefix first of
                None \<Rightarrow> Inl AttributeError
              | Some pre \<Rightarrow>
                  (let layer_dict = layer_dict_of tensor_names []
                   in case get_tensor_by_name g (pre @ ''/input:0'') of
                        Inl e \<Rightarrow> Inl e
                      | Inr inp \<Rightarrow> Inr (inp, layer_dict))))"

record ('ts, 'v) TensorFlowExtractor = "'ts Extractor" +
  tf_batch_size :: int
  tf_graph :: "'v tf_graph"
  tf_layer :: string
  tf_input :: string
  tf_net_output :: string
  tf_layers :: "string list"

text \<open>
  The constructor. The assertion message is
  \<^verbatim>\<open>'{}' is not a valid layer. Available layers are: {}\<close> filled with the layer and the
  sorted list of keys. \<^verbatim>\<open>self.features\<close> is the flattened \<^verbatim>\<open>net_output\<close>; it is
  kept as the name of \<^verbatim>\<open>net_output\<close> and flattened when the session runs it.
\<close>

definition TensorFlowExtractor_init ::
  "'ts plot_tuple list \<Rightarrow> 'v graph_def \<Rightarrow> string \<Rightarrow> int
    \<Rightarrow> py_error + ('ts, 'v) TensorFlowExtractor" where
  "TensorFlowExtractor_init imgs model_path layer batch_size =
     (let base = Extractor_init imgs batch_size;
          g = load_graph model_path
      in case input_and_layers g of
           Inl e \<Rightarrow> Inl e
         | Inr (inp, layers) \<Rightarrow>
             (case map_of layers layer of
                None \<Rightarrow>
                  Inl (AssertionError
                        (py_repr_str layer @ '' is not a valid layer. Available layers are: ''
                          @ py_repr_list (sort (map fst layers))))
              | Some net_output \<Rightarrow>
                  Inr \<lparr>images = images base, tf_batch_size = batch_size, tf_graph = g,
                       tf_layer = layer, tf_input = inp, tf_net_output = net_output,
                       tf_layers = map fst layers\<rparr>))"

section \<open>The caller's batch as objects in a store\<close>

text \<open>
  Lists and arrays are mutable objects that Python passes by reference. To say what a
  call does to the caller's batch, the objects live in a store and a batch is the triple
  of the addresses of its name list, its timestamp list and its image array. The network
  runtimes are outside the code; a call into one (\<^verbatim>\<open>session.run\<close>,
  \<^verbatim>\<open>model.predict\<close>, a library preprocessing function on an array of unsigned bytes,
  an image resize) is taken as a function of the value it is given that returns a new
  array. The blobs of a Caffe network are arrays in the store, which the code writes.
\<close>

type_synonym addr = nat

datatype ('ts, 'v) py_obj =
    NameList "string list"
  | TsList "'ts list"
  | ImageArray uint8_array
  | Blob "'v ndarray"

type_synonym ('ts, 'v) store = "addr \<Rightarrow> ('ts, 'v) py_obj option"

type_synonym batch_ref = "addr \<times> addr \<times> addr"

text \<open>\<^verbatim>\<open>name_batch, ts_batch, image_batch = tuple_batch\<close>, reading the three objects.\<close>

definition read_batch :: "('ts, 'v) store \<Rightarrow> batch_ref \<Rightarrow> py_error + 'ts tuple_batch" where
  "read_batch s tuple_batch =
     (case tuple_batch of (a_name, a_ts, a_image) \<Rightarrow>
        (case (s a_name, s a_ts, s a_image) of
           (Some (NameList names), Some (TsList tss), Some (ImageArray imgs)) \<Rightarrow>
             Inr (names, tss, imgs)
         | _ \<Rightarrow> Inl TypeError))"

text \<open>
  \<^verbatim>\<open>map(FeatureTuple._make, zip(name_batch, ts_batch, feature_batch))\<close>: the records
  that the returned iterator yields.
\<close>

definition feature_tuples ::
  "string list \<Rightarrow> 'ts list \<Rightarrow> 'v ndarray \<Rightarrow> py_error + ('ts, 'v) FeatureTuple list" where
  "feature_tuples names tss feature_batch =
     (case rows feature_batch of
        Inl e \<Rightarrow> Inl e
      | Inr fs \<Rightarrow> Inr (zip3 names tss fs))"

definition TensorFlowExtractor_extract_features ::
  "('ts, 'v) TensorFlowExtractor \<Rightarrow> batch_ref \<Rightarrow> ('ts, 'v) store
    \<Rightarrow> (py_error + ('ts, 'v) FeatureTuple list) \<times> ('ts, 'v) store" where
  "TensorFlowExtractor_extract_features self tuple_batch s =
     (case read_batch s tuple_batch of
        Inl e \<Rightarrow> (Inl e, s)
      | Inr (names, tss, imgs) \<Rightarrow>
          (case tf_flatten (run (tf_graph self) (tf_net_output self) imgs) of
             Inl e \<Rightarrow> (Inl e, s)
           | Inr feature_batch \<Rightarrow> (feature_tuples names tss feature_batch, s)))"

section \<open>The prepackaged-module variant \<^verbatim>\<open>TensorflowHubExtractor\<close>\<close>

text \<open>
  The module is outside the code: its expected image size and, for the signature
  \<^verbatim>\<open>image_feature_vector\<close> with \<^verbatim>\<open>as_dict=True\<close>, the dictionary of its outputs,
  each a function of the processed images. \<^verbatim>\<open>tf.image.resize_images\<close> is a library
  function as well.
\<close>

record 'v hub_module =
  expected_image_size :: "nat \<times> nat"
  resize_images :: "nat \<times> nat \<Rightarrow> uint8_array \<Rightarrow> 'v ndarray"
  module_outputs :: "(string \<times> ('v ndarray \<Rightarrow> 'v ndarray)) list"

text \<open>\<^verbatim>\<open>images[:, :, :, ::-1]\<close>: the channels of every pixel in reverse order.\<close>

definition reverse_channels :: "'a list list list list \<Rightarrow> 'a list list list list" where
  "reverse_channels x = map (map (map rev)) x"

text \<open>
  An attribute that the constructor may leave unset is an option; reading it while unset
  raises \<^verbatim>\<open>AttributeError\<close>.
\<close>

record ('ts, 'v) TensorflowHubExtractor = "'ts Extractor" +
  hub_batch_size :: int
  hub_layer :: string
  hub_image_size :: "nat \<times> nat"
  hub_process_images :: "uint8_array \<Rightarrow> 'v ndarray"
  hub_layers :: "string list"
  hub_features :: "('v ndarray \<Rightarrow> 'v ndarray) option"
  hub_session :: "unit option"

definition TensorflowHubExtractor_init ::
  "'ts plot_tuple list \<Rightarrow> 'v hub_module \<Rightarrow> string \<Rightarrow> int
    \<Rightarrow> py_error + ('ts, 'v) TensorflowHubExtractor" where
  "TensorflowHubExtractor_init imgs model_path layer batch_size =
     (let base = Extractor_init imgs batch_size;
          module = model_path;
          process_images = (\<lambda>x. resize_images module (expected_image_size module)
                                   (reverse_channels x));
          layers = module_outputs module;
          self = \<lparr>images = images base, hub_batch_size = batch_size, hub_layer = layer,
                  hub_image_size = expected_image_size module,
                  hub_process_images = process_images,
                  hub_layers = map fst layers, hub_features = None, hub_session = None\<rparr>
      in if layer \<in> set (map fst layers)
         then Inr (self\<lparr>hub_features := map_of layers layer, hub_session := Some ()\<rparr>)
         else Inr self)"

definition TensorflowHubExtractor_extract_features ::
  "('ts, 'v) TensorflowHubExtractor \<Rightarrow> batch_ref \<Rightarrow> ('ts, 'v) store
    \<Rightarrow> (py_error + ('ts, 'v) FeatureTuple list) \<times> ('ts, 'v) store" where
  "TensorflowHubExtractor_extract_features self tuple_batch s =
     (case read_batch s tuple_batch of
        Inl e \<Rightarrow> (Inl e, s)
      | Inr (names, tss, imgs) \<Rightarrow>
          (case hub_session self of
             None \<Rightarrow> (Inl AttributeError, s)
           | Some session \<Rightarrow>
               (case hub_features self of
                  None \<Rightarrow> (Inl AttributeError, s)
                | Some features \<Rightarrow>
                    (feature_tuples names tss (features (hub_process_images self imgs)), s))))"

section \<open>The named-architecture variant \<^verbatim>\<open>KerasExtractor\<close>\<close>

text \<open>
  What the network sees: the unsigned bytes themselves (after the code's own channel
  reversal) or the floating-point array a library preprocessing function returns.
\<close>

datatype 'v keras_input = RawImages uint8_array | FloatImages "'v ndarray"

text \<open>
  A loaded architecture is outside the code: the names of its layers in order, the
  spatial size of its input (\<^verbatim>\<open>model.input.shape[1:-1]\<close>) and the output of each
  layer for a batch, which is what \<^verbatim>\<open>predict\<close> of the model cut at that layer returns.
  So are the constructors of \<^verbatim>\<open>tf.keras.applications\<close>, the
  \<^verbatim>\<open>preprocess_input\<close> functions of its modules and the resize of PIL.
\<close>

record 'v keras_model =
  layer_names :: "string list"
  input_size :: "nat \<times> nat"
  layer_output :: "string \<Rightarrow> 'v keras_input \<Rightarrow> 'v ndarray"

record 'v keras_applications =
  build_model :: "string \<Rightarrow> string \<Rightarrow> 'v keras_model"
  preprocess_input :: "string \<Rightarrow> uint8_array \<Rightarrow> 'v ndarray"
  pil_resize :: "nat \<times> nat \<Rightarrow> uint8 list list list \<Rightarrow> uint8 list list list"

text \<open>
  The keys of \<^verbatim>\<open>self.models\<close> and \<^verbatim>\<open>self.preprocessors\<close>. Under
  \<^verbatim>\<open>inception_v3\<close> both dictionaries hold the module itself, not a constructor or a
  function, and calling a module raises \<^verbatim>\<open>TypeError\<close>.
\<close>

definition model_keys :: "string list" where
  "model_keys =
     [''vgg16'', ''vgg19'', ''resnet50'', ''xception'', ''inception_v3'', ''densenet121'',
      ''densenet169'', ''densenet201'', ''mobilenet'', ''mobilenet_v2'', ''nasnet_large'',
      ''nasnet_mobile'', ''inception_resnet_v2'']"

text \<open>\<^verbatim>\<open>__preprocess_vgg\<close>: \<^verbatim>\<open>x[:, :, :, ::-1]\<close>.\<close>

definition preprocess_vgg :: "uint8_array \<Rightarrow> uint8_array" where
  "preprocess_vgg x = reverse_channels x"

definition preprocessors :: "'v keras_applications \<Rightarrow> string \<Rightarrow> uint8_array \<Rightarrow> 'v keras_input" where
  "preprocessors lib model_key =
     (if model_key = ''vgg16'' \<or> model_key = ''vgg19''
      then (\<lambda>x. RawImages (preprocess_vgg x))
      else (\<lambda>x. FloatImages (preprocess_input lib model_key x)))"

text \<open>
  \<^verbatim>\<open>(x.shape[1], x.shape[2])\<close> of an image batch; an array without these two axes
  raises \<^verbatim>\<open>IndexError\<close>.
\<close>

definition array_hw :: "'a list list list list \<Rightarrow> py_error + nat \<times> nat" where
  "array_hw x =
     (case x of
        [] \<Rightarrow> Inl IndexError
      | img # _ \<Rightarrow>
          (case img of
             [] \<Rightarrow> Inl IndexError
           | row # _ \<Rightarrow> Inr (length img, length row)))"

text \<open>\<^verbatim>\<open>__resize\<close>: a new array of resized images, or the argument itself.\<close>

definition resize ::
  "'v keras_applications \<Rightarrow> uint8_array \<Rightarrow> nat \<times> nat \<Rightarrow> py_error + uint8_array" where
  "resize lib x target =
     (case array_hw x of
        Inl e \<Rightarrow> Inl e
      | Inr hw \<Rightarrow> if hw \<noteq> target then Inr (map (pil_resize lib target) x) else Inr x)"

record ('ts, 'v) KerasExtractor = "'ts Extractor" +
  keras_batch_size :: int
  keras_layer :: string
  keras_layers :: "string list"
  keras_lib :: "'v keras_applications"
  keras_model :: "'v keras_model"
  keras_preprocess :: "uint8_array \<Rightarrow> 'v keras_input"

text \<open>
  The constructor. The assertion message is the f-string
  \<^verbatim>\<open>Invalid layer key. Available layers: {self.layers}\<close>.
\<close>

definition KerasExtractor_init ::
  "'ts plot_tuple list \<Rightarrow> 'v keras_applications \<Rightarrow> string \<Rightarrow> string \<Rightarrow> string \<Rightarrow> int
    \<Rightarrow> py_error + ('ts, 'v) KerasExtractor" where
  "KerasExtractor_init imgs lib model_key layer weights_path batch_size =
     (let base = Extractor_init imgs batch_size
      in if model_key \<notin> set model_keys then Inl KeyError
         else if model_key = ''inception_v3'' then Inl TypeError
         else
           (let base_model = build_model lib model_key weights_path;
                layers = layer_names base_model
            in if layer \<notin> set layers
               then Inl (AssertionError
                          (''Invalid layer key. Available layers: '' @ py_repr_list layers))
               else Inr \<lparr>images = images base, keras_batch_size = batch_size,
                         keras_layer = layer, keras_layers = layers, keras_lib = lib,
                         keras_model = base_model,
                         keras_preprocess = preprocessors lib model_key\<rparr>))"

definition KerasExtractor_extract_features ::
  "('ts, 'v) KerasExtractor \<Rightarrow> batch_ref \<Rightarrow> ('ts, 'v) store
    \<Rightarrow> (py_error + ('ts, 'v) FeatureTuple list) \<times> ('ts, 'v) store" where
  "KerasExtractor_extract_features self tuple_batch s =
     (case read_batch s tuple_batch of
        Inl e \<Rightarrow> (Inl e, s)
      | Inr (names, tss, imgs) \<Rightarrow>
          (case resize (keras_lib self) imgs (input_size (keras_model self)) of
             Inl e \<Rightarrow> (Inl e, s)
           | Inr resized \<Rightarrow>
               (let preprocessed = keras_preprocess self resized;
                    feature_batch = layer_output (keras_model self) (keras_layer self) preprocessed
                in case np_flatten feature_batch of
                     Inl e \<Rightarrow> (Inl e, s)
                   | Inr flat \<Rightarrow> (feature_tuples names tss flat, s))))"

section \<open>The legacy variant \<^verbatim>\<open>CaffeExtractor\<close>\<close>

subsection \<open>The transformer of pycaffe\<close>

text \<open>
  \<^verbatim>\<open>caffe.io.Transformer\<close> keeps, for the input \<^verbatim>\<open>data\<close>, the input shape and
  the optional settings; \<^verbatim>\<open>preprocess\<close> applies those that are set, in this order:
  conversion to floating point, resize to the input's height and width when they differ,
  transpose, channel swap, raw scale, mean subtraction, input scale. The mean is one
  value per channel.
\<close>

record 'v Transformer =
  inputs :: "nat list"
  transpose_order :: "nat list option"
  channel_swap :: "nat list option"
  raw_scale :: "'v option"
  mean :: "'v list option"
  input_scale :: "'v option"

definition Transformer_init :: "nat list \<Rightarrow> 'v Transformer" where
  "Transformer_init data_shape =
     \<lparr>inputs = data_shape, transpose_order = None, channel_swap = None, raw_scale = None,
      mean = None, input_scale = None\<rparr>"

definition set_transpose :: "'v Transformer \<Rightarrow> nat list \<Rightarrow> py_error + 'v Transformer" where
  "set_transpose t order =
     (if length order \<noteq> length (inputs t) - 1 then Inl Exception
      else Inr (t\<lparr>transpose_order := Some order\<rparr>))"

definition set_channel_swap :: "'v Transformer \<Rightarrow> nat list \<Rightarrow> py_error + 'v Transformer" where
  "set_channel_swap t order =
     (case inputs t of
        n # c # _ \<Rightarrow>
          if length order \<noteq> c then Inl Exception else Inr (t\<lparr>channel_swap := Some order\<rparr>)
      | _ \<Rightarrow> Inl IndexError)"

text \<open>
  \<^verbatim>\<open>a.transpose(order)\<close> on an array of rank 3: axis \<open>k\<close> of the result is axis
  \<open>order[k]\<close> of \<open>a\<close>.
\<close>

definition nd_transpose :: "nat list \<Rightarrow> 'a list list list \<Rightarrow> py_error + 'a list list list" where
  "nd_transpose order x =
     (if sort order \<noteq> [0, 1, 2] then Inl ValueError
      else
        (let d = dims3 x
         in Inr (map (\<lambda>i. map (\<lambda>j. map (\<lambda>k.
                   (let idx = [0, 0, 0][order ! 0 := i, order ! 1 := j, order ! 2 := k]
                    in x ! (idx ! 0) ! (idx ! 1) ! (idx ! 2)))
                   [0..<d ! (order ! 2)]) [0..<d ! (order ! 1)]) [0..<d ! (order ! 0)])))"

text \<open>\<^verbatim>\<open>caffe_in[channel_swap, :, :]\<close>: the listed channels, in the listed order.\<close>

definition swap_channels :: "nat list \<Rightarrow> 'a list list list \<Rightarrow> py_error + 'a list list list" where
  "swap_channels order x =
     (if list_all (\<lambda>i. i < length x) order then Inr (map (\<lambda>i. x ! i) order)
      else Inl IndexError)"

text \<open>\<^verbatim>\<open>caffe_in -= mean\<close>, the mean of channel \<open>c\<close> taken from every element of it.\<close>

definition subtract_mean :: "'v::comm_ring_1 list \<Rightarrow> 'v list list list \<Rightarrow> 'v list list list" where
  "subtract_mean m x = map (\<lambda>(mc, channel). map (map (\<lambda>v. v - mc)) channel) (zip m x)"

definition scale :: "'v::comm_ring_1 \<Rightarrow> 'v list list list \<Rightarrow> 'v list list list" where
  "scale c x = map (map (map (\<lambda>v. v * c))) x"

text \<open>\<^verbatim>\<open>data.astype(np.float32)\<close> of an image of unsigned bytes.\<close>

definition astype_float :: "uint8 list list list \<Rightarrow> 'v::comm_ring_1 list list list" where
  "astype_float img = map (map (map (\<lambda>p. of_nat (unat p)))) img"

text \<open>
  The first two steps of \<^verbatim>\<open>Transformer.preprocess('data', x)\<close>: the conversion, and
  the resize when \<^verbatim>\<open>caffe_in.shape[:2] != in_dims\<close>. The interpolating
  \<^verbatim>\<open>caffe.io.resize_image\<close> is a parameter.
\<close>

definition to_input_size ::
  "(nat \<times> nat \<Rightarrow> 'v list list list \<Rightarrow> 'v list list list) \<Rightarrow> 'v::comm_ring_1 Transformer
    \<Rightarrow> uint8 list list list \<Rightarrow> 'v list list list" where
  "to_input_size resize_image t img =
     (let caffe_in = astype_float img;
          in_dims = drop 2 (inputs t)
      in if take 2 (dims3 caffe_in) \<noteq> in_dims
         then resize_image (in_dims ! 0, in_dims ! 1) caffe_in else caffe_in)"

text \<open>\<^verbatim>\<open>Transformer.preprocess('data', x)\<close>.\<close>

definition Transformer_preprocess ::
  "(nat \<times> nat \<Rightarrow> 'v list list list \<Rightarrow> 'v list list list) \<Rightarrow> 'v::comm_ring_1 Transformer
    \<Rightarrow> uint8 list list list \<Rightarrow> py_error + 'v list list list" where
  "Transformer_preprocess resize_image t img =
     (let caffe_in = to_input_size resize_image t img
      in case (case transpose_order t of None \<Rightarrow> Inr caffe_in
               | Some order \<Rightarrow> nd_transpose order caffe_in) of
           Inl e \<Rightarrow> Inl e
         | Inr caffe_in \<Rightarrow>
             (case (case channel_swap t of None \<Rightarrow> Inr caffe_in
                    | Some order \<Rightarrow> swap_channels order caffe_in) of
                Inl e \<Rightarrow> Inl e
              | Inr caffe_in \<Rightarrow>
                  (let caffe_in = (case raw_scale t of None \<Rightarrow> caffe_in
                                   | Some c \<Rightarrow> scale c caffe_in);
                       caffe_in = (case mean t of None \<Rightarrow> caffe_in
                                   | Some m \<Rightarrow> subtract_mean m caffe_in);
                       caffe_in = (case input_scale t of None \<Rightarrow> caffe_in
                                   | Some c \<Rightarrow> scale c caffe_in)
                   in Inr caffe_in)))"

subsection \<open>The network and the extractor\<close>

text \<open>
  The loaded network is outside the code: the names of its blobs in order, the address
  at which the array of each blob lives in the store, the content every blob takes in a
  forward pass for a given content of the blob \<^verbatim>\<open>data\<close>, and the image resize of
  pycaffe.
\<close>

record 'v caffe_net =
  blob_names :: "string list"
  blob_addr :: "string \<Rightarrow> addr"
  forward_blob :: "'v ndarray \<Rightarrow> string \<Rightarrow> 'v ndarray"
  resize_image :: "nat \<times> nat \<Rightarrow> 'v list list list \<Rightarrow> 'v list list list"

text \<open>\<^verbatim>\<open>self.net.blobs[name]\<close>, reading the blob's array from the store.\<close>

definition blobs :: "'v caffe_net \<Rightarrow> ('ts, 'v) store \<Rightarrow> string \<Rightarrow> py_error + 'v ndarray" where
  "blobs n s name =
     (if name \<in> set (blob_names n)
      then (case s (blob_addr n name) of Some (Blob a) \<Rightarrow> Inr a | _ \<Rightarrow> Inl KeyError)
      else Inl KeyError)"

record ('ts, 'v) CaffeExtractor = "'ts Extractor" +
  caffe_layer :: string
  net :: "'v caffe_net"
  transformer :: "'v Transformer"
  caffe_layers :: "string list"

text \<open>
  The constructor reads the shape of the blob \<^verbatim>\<open>data\<close> for the transformer, sets
  the transpose \<^verbatim>\<open>(2, 0, 1)\<close> and the channel swap \<^verbatim>\<open>(2, 1, 0)\<close>, and lists the
  blob names. It compares \<^verbatim>\<open>layer\<close> with nothing.
\<close>

definition CaffeExtractor_init ::
  "'ts plot_tuple list \<Rightarrow> 'v::comm_ring_1 caffe_net \<Rightarrow> string \<Rightarrow> int \<Rightarrow> ('ts, 'v) store
    \<Rightarrow> py_error + ('ts, 'v) CaffeExtractor" where
  "CaffeExtractor_init imgs loaded_net layer batch_size s =
     (let base = Extractor_init imgs batch_size
      in case blobs loaded_net s ''data'' of
           Inl e \<Rightarrow> Inl e
         | Inr data_blob \<Rightarrow>
             (case set_transpose (Transformer_init (shape data_blob)) [2, 0, 1] of
                Inl e \<Rightarrow> Inl e
              | Inr t1 \<Rightarrow>
                  (case set_channel_swap t1 [2, 1, 0] of
                     Inl e \<Rightarrow> Inl e
                   | Inr t2 \<Rightarrow>
                       Inr \<lparr>images = images base, caffe_layer = layer, net = loaded_net,
                            transformer = t2, caffe_layers = blob_names loaded_net\<rparr>)))"

text \<open>The function \<^verbatim>\<open>lambda x: self.transformer.preprocess('data', x)\<close>.\<close>

definition CaffeExtractor_preprocess ::
  "('ts, 'v::comm_ring_1) CaffeExtractor \<Rightarrow> uint8 list list list \<Rightarrow> py_error + 'v list list list" where
  "CaffeExtractor_preprocess self x =
     Transformer_preprocess (resize_image (net self)) (transformer self) x"

text \<open>
  \<^verbatim>\<open>list(map(lambda x: self.transformer.preprocess('data', x), image_batch))\<close>,
  stopping at the first image that raises.
\<close>

fun preprocess_all ::
  "(uint8 list list list \<Rightarrow> py_error + 'v list list list) \<Rightarrow> uint8_array
    \<Rightarrow> py_error + 'v list list list list" where
  "preprocess_all f [] = Inr []"
| "preprocess_all f (x # xs) =
     (case f x of
        Inl e \<Rightarrow> Inl e
      | Inr y \<Rightarrow> (case preprocess_all f xs of Inl e \<Rightarrow> Inl e | Inr ys \<Rightarrow> Inr (y # ys)))"

text \<open>
  \<^verbatim>\<open>net.forward()\<close> writes the array of every blob but \<^verbatim>\<open>data\<close>, whose array holds
  the input.
\<close>

fun forward :: "'v caffe_net \<Rightarrow> 'v ndarray \<Rightarrow> string list \<Rightarrow> ('ts, 'v) store \<Rightarrow> ('ts, 'v) store" where
  "forward n data_blob [] s = s"
| "forward n data_blob (name # names) s =
     forward n data_blob names
       (if name = ''data'' then s
        else s(blob_addr n name \<mapsto> Blob (forward_blob n data_blob name)))"

text \<open>
  \<^verbatim>\<open>extract_features\<close>: the blob \<^verbatim>\<open>data\<close> is reshaped to the size of the batch,
  the preprocessed images are assigned into it (their shapes must fit), the forward pass
  runs, and the rows of the array of the blob \<^verbatim>\<open>self.layer\<close> are zipped with the names
  and timestamps.
\<close>

definition CaffeExtractor_extract_features ::
  "('ts, 'v::comm_ring_1) CaffeExtractor \<Rightarrow> batch_ref \<Rightarrow> ('ts, 'v) store
    \<Rightarrow> (py_error + ('ts, 'v) FeatureTuple list) \<times> ('ts, 'v) store" where
  "CaffeExtractor_extract_features self tuple_batch s =
     (case read_batch s tuple_batch of
        Inl e \<Rightarrow> (Inl e, s)
      | Inr (names, tss, imgs) \<Rightarrow>
          (case blobs (net self) s ''data'' of
             Inl e \<Rightarrow> (Inl e, s)
           | Inr data_blob \<Rightarrow>
               (case shape data_blob of
                  n # c # h # w # _ \<Rightarrow>
                    (let data_addr = blob_addr (net self) ''data'';
                         new_shape = [length imgs, c, h, w];
                         s1 = s(data_addr \<mapsto>
                                 Blob (NdArray new_shape (replicate (prod_list new_shape) 0)))
                     in case preprocess_all (CaffeExtractor_preprocess self) imgs of
                          Inl e \<Rightarrow> (Inl e, s1)
                        | Inr pre \<Rightarrow>
                            if list_all (\<lambda>x. rect3 x \<and> dims3 x = [c, h, w]) pre
                            then
                              (let data = NdArray new_shape (concat (map (\<lambda>x. concat (concat x)) pre));
                                   s2 = s1(data_addr \<mapsto> Blob data);
                                   s3 = forward (net self) data (blob_names (net self)) s2
                               in case blobs (net self) s3 (caffe_layer self) of
                                    Inl e \<Rightarrow> (Inl e, s3)
                                  | Inr feature_batch \<Rightarrow>
                                      (feature_tuples names tss feature_batch, s3))
                            else (Inl ValueError, s1))
                | _ \<Rightarrow> (Inl IndexError, s))))"

section \<open>Concrete models for the examples\<close>

text \<open>
  A frozen graph with the node names of a converted AlexNet, cut short: convolution,
  normalisation, fully connected layer and softmax. Every node evaluates to a
  \<open>2 \<times> 2\<close> array per sample.
\<close>

definition alexnet_pb :: "int graph_def" where
  "alexnet_pb =
     \<lparr>node = [''input'', ''conv1/weights'', ''conv1/Conv2D'', ''conv1/conv1'', ''norm1'',
              ''fc7/MatMul'', ''fc7/fc7'', ''prob''],
      node_value = (\<lambda>t imgs. NdArray [length imgs, 2, 2] (concat (map (\<lambda>i. [1, 2, 3, 4]) imgs)))\<rparr>"

text \<open>
  A module with a flat default output and an intermediate output of rank 4; its resize
  only converts the bytes to numbers.
\<close>

definition bytes_to_array :: "uint8_array \<Rightarrow> int ndarray" where
  "bytes_to_array x =
     NdArray (length x # dims3 (hd x)) (map uint (concat (concat (concat x))))"

definition demo_module :: "int hub_module" where
  "demo_module =
     \<lparr>expected_image_size = (1, 1),
      resize_images = (\<lambda>size x. bytes_to_array x),
      module_outputs =
        [(''default'', \<lambda>x. NdArray [hd (shape x), prod_list (tl (shape x))] (elems x)),
         (''block1'', \<lambda>x. x)]\<rparr>"

text \<open>An architecture with three layers, each giving an array of rank 4.\<close>

definition demo_keras :: "int keras_applications" where
  "demo_keras =
     \<lparr>build_model = (\<lambda>model_key weights.
        \<lparr>layer_names = [''input_1'', ''block1_conv1'', ''fc1''],
         input_size = (1, 1),
         layer_output = (\<lambda>layer x. case x of RawImages b \<Rightarrow> bytes_to_array b
                                        | FloatImages a \<Rightarrow> a)\<rparr>),
      preprocess_input = (\<lambda>model_key x. bytes_to_array x),
      pil_resize = (\<lambda>size img. img)\<rparr>"

text \<open>
  A network with the blobs \<^verbatim>\<open>data\<close>, \<^verbatim>\<open>conv1\<close> (of rank 4) and \<^verbatim>\<open>fc7\<close>
  (of rank 2) at the addresses 10, 11 and 12, and a store that holds them together
  with the first batch of the scenario for batch size 2 at the addresses 0, 1 and 2.
\<close>

definition demo_net :: "int caffe_net" where
  "demo_net =
     \<lparr>blob_names = [''data'', ''conv1'', ''fc7''],
      blob_addr = (\<lambda>name. if name = ''data'' then 10 else if name = ''conv1'' then 11 else 12),
      forward_blob = (\<lambda>data_blob name.
        if name = ''conv1'' then data_blob
        else NdArray [hd (shape data_blob), prod_list (tl (shape data_blob))] (elems data_blob)),
      resize_image = (\<lambda>size x. x)\<rparr>"

definition demo_batch :: batch_ref where
  "demo_batch = (0, 1, 2)"

definition demo_store :: "(int, int) store" where
  "demo_store =
     [0 \<mapsto> NameList [''a'', ''b''],
      1 \<mapsto> TsList [0, 1],
      2 \<mapsto> ImageArray [[[[0, 255, 7]]], [[[1, 2, 3]]]],
      10 \<mapsto> Blob (NdArray [1, 3, 1, 1] [0, 0, 0]),
      11 \<mapsto> Blob (NdArray [1, 3, 1, 1] [0, 0, 0]),
      12 \<mapsto> Blob (NdArray [1, 3] [0, 0, 0])]"

definition demo_caffe :: "(int, int) CaffeExtractor" where
  "demo_caffe =
     \<lparr>images = PyGenerator (Generator scenario_images 2), caffe_layer = ''conv1'',
      net = demo_net,
      transformer = \<lparr>inputs = [1, 3, 1, 1], transpose_order = Some [2, 0, 1],
                     channel_swap = Some [2, 1, 0], raw_scale = None, mean = None,
                     input_scale = None\<rparr>,
      caffe_layers = [''data'', ''conv1'', ''fc7'']\<rparr>"

section \<open>The claims in the words of the specification\<close>

text \<open>
  A per-sample output is flat when it is a one-dimensional vector, of dimension \<open>D\<close>.
\<close>

definition flat_vector :: "nat \<Rightarrow> 'v ndarray \<Rightarrow> bool" where
  "flat_vector D f \<longleftrightarrow> shape f = [D]"

text \<open>
  The diagnostic asked of a failed construction: the message holds the offending layer
  name and the sorted list of the valid names.
\<close>

definition names_layer_and_sorted_alternatives :: "string \<Rightarrow> string \<Rightarrow> string list \<Rightarrow> bool" where
  "names_layer_and_sorted_alternatives message layer layers \<longleftrightarrow>
     py_in_str layer message \<and> py_in_str (py_repr_list (sort layers)) message"

text \<open>
  The image in channel-first layout: element \<open>(c, h, w)\<close> is element \<open>(h, w, c)\<close> of
  the image.
\<close>

definition channel_first :: "'a list list list \<Rightarrow> 'a list list list" where
  "channel_first x =
     map (\<lambda>c. map (\<lambda>h. map (\<lambda>w. x ! h ! w ! c) [0..<dims3 x ! 1]) [0..<dims3 x ! 0])
       [0..<dims3 x ! 2]"

text \<open>
  The preprocessing of the legacy variant as the specification words it: transpose to
  channel-first, reverse the channel order, subtract the pixel mean of the network (one
  value per channel, in the reversed order).
\<close>

definition claimed_preprocess :: "'v::comm_ring_1 list \<Rightarrow> uint8 list list list \<Rightarrow> 'v list list list" where
  "claimed_preprocess network_mean img =
     subtract_mean network_mean (rev (channel_first (astype_float img)))"

text \<open>
  The exclusion rule in the words of the specification: a node is excluded when its name
  ends in one of the listed strings.
\<close>

definition excluded_by_ending :: "string \<Rightarrow> bool" where
  "excluded_by_ending tensor_name =
     list_ex (\<lambda>ending. suffix ending tensor_name) ignored_tensor_endings"

subsection \<open>Auxiliary notions for the batching proofs\<close>



text \<open>
  The loop on one buffer of whole tuples: the three buffers of \<open>batch_loop\<close> are the
  three projections of this one, and a boundary is reached when the buffer is full.
\<close>

fun chunk_from :: "nat \<Rightarrow> 'a list \<Rightarrow> 'a list \<Rightarrow> 'a list list" where
  "chunk_from b acc [] = (if acc \<noteq> [] then [acc] else [])"
| "chunk_from b acc (x # xs) =
     (if Suc (length acc) = b then (acc @ [x]) # chunk_from b [] xs
      else chunk_from b (acc @ [x]) xs)"



section \<open>Batch sizes and batch count\<close>





text \<open>Images that all have the shape \<open>d\<close> can be stacked.\<close>

lemma same_shape_uniform:
  assumes "list_all (\<lambda>x. rect3 x \<and> dims3 x = d) imgs"
  shows "same_shape imgs"
proof (cases imgs)
  case Nil
  then show ?thesis by (simp add: same_shape_def)
next
  case (Cons x xs)
  then have "dims3 (hd imgs) = d" using assms by simp
  then show ?thesis using assms by (simp add: same_shape_def)
qed

lemma np_array_uniform:
  assumes "list_all (\<lambda>x. rect3 x \<and> dims3 x = d) imgs"
  shows "np_array_uint8 float_to_uint8 imgs = Inr (cast_images float_to_uint8 imgs)"
  using same_shape_uniform [OF assms] by (simp add: np_array_uint8_def)

lemma same_shape_all:
  assumes "same_shape imgs"
  shows "list_all (\<lambda>x. rect3 x \<and> dims3 x = dims3 (hd imgs)) imgs"
  using assms by (simp add: same_shape_def)



lemma concat_chunk_from: "concat (chunk_from b acc xs) = acc @ xs"
  by (induction xs arbitrary: acc) auto








lemma scenario_same_shape: "same_shape (images_of scenario_images)"
  by (simp add: same_shape_def images_of_def scenario_images_def int_image_def rect3_def
      dims3_def)




section \<open>Order preservation and the cast to unsigned bytes\<close>

lemma batch_fields [simp]:
  "name_batch (n, t, i) = n" "ts_batch (n, t, i) = t" "image_batch (n, t, i) = i"
  by (simp_all add: name_batch_def ts_batch_def image_batch_def)

lemma np_array_uint8_Inr:
  assumes "np_array_uint8 float_to_uint8 imgs = Inr a"
  shows "a = cast_images float_to_uint8 imgs"
  using assms by (simp add: np_array_uint8_def split: if_splits)

lemma cast_images_append [simp]:
  "cast_images f (xs @ ys) = cast_images f xs @ cast_images f ys"
  by (simp add: cast_images_def)

lemma length_cast_images [simp]: "length (cast_images f xs) = length xs"
  by (simp add: cast_images_def)

lemma cast_images_simps [simp]:
  "cast_images f [] = []"
  "cast_images f (x # xs) = map (map (map (astype_uint8 f))) x # cast_images f xs"
  by (simp_all add: cast_images_def)

text \<open>
  Whatever the stream, the batches emitted hold its leading tuples, in order: their
  names, timestamps and cast images are the first \<open>k\<close> of the input.
\<close>

lemma batch_loop_prefix:
  assumes "length names = length imgs" "length tss = length imgs"
  shows "\<exists>k. concat (map name_batch (fst (batch_loop f batch_size xs names tss imgs index)))
               = take k (names @ map fst xs)
           \<and> concat (map ts_batch (fst (batch_loop f batch_size xs names tss imgs index)))
               = take k (tss @ map (\<lambda>t. fst (snd t)) xs)
           \<and> concat (map image_batch (fst (batch_loop f batch_size xs names tss imgs index)))
               = take k (cast_images f (imgs @ map (\<lambda>t. snd (snd t)) xs))"
  using assms
proof (induction xs arbitrary: names tss imgs index)
  case Nil
  show ?case
  proof (cases "names \<noteq> [] \<and> same_shape imgs")
    case True
    then have "batch_loop f batch_size [] names tss imgs index
                 = ([(names, tss, cast_images f imgs)], None)"
      by (simp add: np_array_uint8_def)
    then show ?thesis using Nil by (intro exI [of _ "length imgs"]) simp
  next
    case False
    then have "fst (batch_loop f batch_size [] names tss imgs index) = []"
      by (auto simp: np_array_uint8_def)
    then show ?thesis by (intro exI [of _ 0]) simp
  qed
next
  case (Cons x xs)
  obtain name ts img where x: "x = (name, ts, img)" by (cases x) auto
  let ?names = "names @ [name]" and ?tss = "tss @ [ts]" and ?imgs = "imgs @ [img]"
  have len: "length ?names = length ?imgs" "length ?tss = length ?imgs"
    using Cons.prems by simp_all
  consider (zero) "batch_size = 0"
    | (raise) "batch_size \<noteq> 0" "(index + 1) mod batch_size = 0" "\<not> same_shape ?imgs"
    | (yield) "batch_size \<noteq> 0" "(index + 1) mod batch_size = 0" "same_shape ?imgs"
    | (go) "batch_size \<noteq> 0" "(index + 1) mod batch_size \<noteq> 0"
    by blast
  then show ?case
  proof cases
    case zero
    then have "fst (batch_loop f batch_size (x # xs) names tss imgs index) = []"
      by (simp add: x)
    then show ?thesis by (intro exI [of _ 0]) simp
  next
    case raise
    then have "fst (batch_loop f batch_size (x # xs) names tss imgs index) = []"
      by (simp add: x np_array_uint8_def)
    then show ?thesis by (intro exI [of _ 0]) simp
  next
    case yield
    obtain k where k:
        "concat (map name_batch (fst (batch_loop f batch_size xs [] [] [] (index + 1))))
           = take k (map fst xs)"
        "concat (map ts_batch (fst (batch_loop f batch_size xs [] [] [] (index + 1))))
           = take k (map (\<lambda>t. fst (snd t)) xs)"
        "concat (map image_batch (fst (batch_loop f batch_size xs [] [] [] (index + 1))))
           = take k (cast_images f (map (\<lambda>t. snd (snd t)) xs))"
      using Cons.IH [of "[]" "[]" "[]" "index + 1"] by auto
    have run: "fst (batch_loop f batch_size (x # xs) names tss imgs index)
                 = (?names, ?tss, cast_images f ?imgs)
                     # fst (batch_loop f batch_size xs [] [] [] (index + 1))"
      using yield by (simp add: x np_array_uint8_def split: prod.splits)
    show ?thesis
      unfolding run using k len
      by (intro exI [of _ "length ?imgs + k"]) (simp add: x)
  next
    case go
    then have run: "batch_loop f batch_size (x # xs) names tss imgs index
                      = batch_loop f batch_size xs ?names ?tss ?imgs (index + 1)"
      by (simp add: x)
    show ?thesis
      unfolding run using Cons.IH [OF len, of "index + 1"] by (simp add: x)
  qed
qed

text \<open>A stream of images of one shape is emitted whole, and no exception ends the run.\<close>

lemma batch_loop_complete:
  assumes "batch_size \<noteq> 0" "length names = length imgs" "length tss = length imgs"
    and "list_all (\<lambda>x. rect3 x \<and> dims3 x = d) imgs"
    and "list_all (\<lambda>x. rect3 x \<and> dims3 x = d) (map (\<lambda>t. snd (snd t)) xs)"
  shows "\<exists>batches. batch_loop f batch_size xs names tss imgs index = (batches, None)
           \<and> concat (map name_batch batches) = names @ map fst xs
           \<and> concat (map ts_batch batches) = tss @ map (\<lambda>t. fst (snd t)) xs
           \<and> concat (map image_batch batches)
               = cast_images f (imgs @ map (\<lambda>t. snd (snd t)) xs)"
  using assms
proof (induction xs arbitrary: names tss imgs index)
  case Nil
  have "np_array_uint8 f imgs = Inr (cast_images f imgs)"
    by (rule np_array_uniform [OF Nil.prems(4)])
  then show ?case using Nil.prems(2,3) by (cases "names = []") simp_all
next
  case (Cons x xs)
  obtain name ts img where x: "x = (name, ts, img)" by (cases x) auto
  have rest: "list_all (\<lambda>x. rect3 x \<and> dims3 x = d) (map (\<lambda>t. snd (snd t)) xs)"
    using Cons.prems(5) by simp
  have buf: "list_all (\<lambda>x. rect3 x \<and> dims3 x = d) (imgs @ [img])"
    using Cons.prems(4,5) by (simp add: x)
  have np: "np_array_uint8 f (imgs @ [img]) = Inr (cast_images f (imgs @ [img]))"
    by (rule np_array_uniform [OF buf])
  show ?case
  proof (cases "(index + 1) mod batch_size = 0")
    case True
    obtain more where more: "batch_loop f batch_size xs [] [] [] (index + 1) = (more, None)"
        "concat (map name_batch more) = map fst xs"
        "concat (map ts_batch more) = map (\<lambda>t. fst (snd t)) xs"
        "concat (map image_batch more) = cast_images f (map (\<lambda>t. snd (snd t)) xs)"
      using Cons.IH [of "[]" "[]" "[]" "index + 1"] Cons.prems(1) rest by auto
    show ?thesis
      using True Cons.prems(1) more np by (simp add: x)
  next
    case False
    have "length (names @ [name]) = length (imgs @ [img])"
         "length (tss @ [ts]) = length (imgs @ [img])"
      using Cons.prems by simp_all
    from Cons.IH [OF Cons.prems(1) this buf rest, of "index + 1"]
    show ?thesis
      using False Cons.prems(1) by (simp add: x)
  qed
qed




lemma uint_astype_uint8: "uint (astype_uint8 float_to_uint8 (IntPixel v)) = v mod 2 ^ 8"
  by (simp add: astype_uint8_def uint_word_of_int)

text \<open>
  Claim C9. Every batch emitted by \<^verbatim>\<open>_batch_images\<close> carries its images as an array
  of unsigned 8-bit integers, whatever the dtype of the input images: whatever the stream,
  the image arrays of the batches emitted, read batch after batch, are the leading input
  images with every pixel cast to an unsigned byte, and the cast of an integer value is
  its reduction modulo \<open>2 ^ 8\<close>. Both yield sites (the full batch inside the loop and
  the partial batch after it) build the array with \<^verbatim>\<open>dtype=np.uint8\<close>. For a stream of
  images of one shape these are all the input images.
\<close>

theorem batch_images_uint8:
  "(\<forall>v. uint (astype_uint8 float_to_uint8 (IntPixel v)) = v mod 2 ^ 8)
   \<and> (\<exists>k. concat (map image_batch (fst (batch_images float_to_uint8 stream batch_size)))
            = take k (cast_images float_to_uint8 (images_of stream)))
   \<and> (batch_size \<noteq> 0 \<and> same_shape (images_of stream)
        \<longrightarrow> snd (batch_images float_to_uint8 stream batch_size) = None
          \<and> concat (map image_batch (fst (batch_images float_to_uint8 stream batch_size)))
              = cast_images float_to_uint8 (images_of stream))"
proof -
  have prefix: "\<exists>k. concat (map image_batch (fst (batch_images float_to_uint8 stream batch_size)))
            = take k (cast_images float_to_uint8 (images_of stream))"
    using batch_loop_prefix [of "[]" "[]" "[]" float_to_uint8 batch_size stream 0]
    by (auto simp: batch_images_def images_of_def)
  have whole: "snd (batch_images float_to_uint8 stream batch_size) = None
          \<and> concat (map image_batch (fst (batch_images float_to_uint8 stream batch_size)))
              = cast_images float_to_uint8 (images_of stream)"
    if "batch_size \<noteq> 0" "same_shape (images_of stream)"
  proof -
    have u: "list_all (\<lambda>x. rect3 x \<and> dims3 x = dims3 (hd (images_of stream)))
               (map (\<lambda>t. snd (snd t)) stream)"
      using same_shape_all [OF that(2)] by (simp add: images_of_def)
    have e: "list_all (\<lambda>x. rect3 x \<and> dims3 x = dims3 (hd (images_of stream))) []"
      by simp
    from batch_loop_complete [OF that(1) _ _ e u, of "[]" "[]" float_to_uint8 0]
    show ?thesis by (auto simp: batch_images_def images_of_def)
  qed
  show ?thesis using prefix whole uint_astype_uint8 by blast
qed

lemma pixel_values_concat:
  "concat (map (\<lambda>b. pixel_values (image_batch b)) batches)
     = pixel_values (concat (map image_batch batches))"
  by (induction batches) (simp_all add: pixel_values_def)

lemma float_run:
  "batch_images (\<lambda>x. word_of_int \<lfloor>x\<rfloor>) float_images 2
     = ([([''a'', ''b''], [0, 1], [[[[0, 0, 7]]], [[[1, 2, 3]]]])], None)"
  by (simp add: batch_images_def float_images_def np_array_uint8_def same_shape_def
      rect3_def dims3_def astype_uint8_def)

theorem batch_images_uint8_witness:
  "((2::int) \<noteq> 0 \<and> same_shape (images_of scenario_images))
   \<and> concat (map (\<lambda>b. pixel_values (image_batch b))
        (fst (batch_images (\<lambda>x. 0) scenario_images 2)))
       = [[[[0, 255, 7]]], [[[1, 2, 3]]], [[[255, 44, 7]]], [[[4, 5, 6]]], [[[255, 0, 232]]]]
   \<and> batch_images (\<lambda>x. word_of_int \<lfloor>x\<rfloor>) float_images 2
       = ([([''a'', ''b''], [0, 1], [[[[0, 0, 7]]], [[[1, 2, 3]]]])], None)"
proof -
  have h: "(2::int) \<noteq> 0 \<and> same_shape (images_of scenario_images)"
    using scenario_same_shape by simp
  have "concat (map image_batch (fst (batch_images (\<lambda>x. 0) scenario_images 2)))
          = cast_images (\<lambda>x. 0) (images_of scenario_images)"
    using batch_images_uint8 [of "\<lambda>x. 0" scenario_images 2] h by blast
  then have "concat (map (\<lambda>b. pixel_values (image_batch b))
        (fst (batch_images (\<lambda>x. 0) scenario_images 2)))
       = pixel_values (cast_images (\<lambda>x. 0) (images_of scenario_images))"
    by (simp add: pixel_values_concat)
  also have "\<dots> = [[[[0, 255, 7]]], [[[1, 2, 3]]], [[[255, 44, 7]]], [[[4, 5, 6]]],
                   [[[255, 0, 232]]]]"
    using uint_astype_uint8 [of "\<lambda>x. 0"]
    by (simp add: pixel_values_def images_of_def scenario_images_def int_image_def)
  finally show ?thesis using h float_run by simp
qed

section \<open>Evaluating the concrete models\<close>

lemma alexnet_kept:
  "filter (\<lambda>op. \<not> ignore_tensor op) (operations (load_graph alexnet_pb))
     = [''extractor/conv1/conv1'', ''extractor/fc7/fc7'']"
  by (simp add: load_graph_def alexnet_pb_def ignore_tensor_def ignored_tensor_endings_def)

lemma alexnet_layers:
  "input_and_layers (load_graph alexnet_pb)
     = Inr (''extractor/input:0'',
            [(''conv1'', ''extractor/conv1/conv1:0''), (''fc7'', ''extractor/fc7/fc7:0'')])"
  unfolding input_and_layers_def alexnet_kept
  by (simp add: re_match_prefix_def is_word_char_def layer_key_def drop_last2_def
      get_tensor_by_name_def load_graph_def alexnet_pb_def)

lemma demo_batch_first:
  "read_batch demo_store demo_batch
     = Inr (hd (fst (batch_images float_to_uint8 scenario_images 2)))"
  by (simp add: batch_images_def scenario_images_def np_array_uint8_def same_shape_def
      cast_images_def astype_uint8_def int_image_def rect3_def dims3_def read_batch_def
      demo_store_def demo_batch_def split: prod.splits)

lemma demo_caffe_init:
  "CaffeExtractor_init scenario_images demo_net ''conv1'' 2 demo_store = Inr demo_caffe"
  by (simp add: CaffeExtractor_init_def blobs_def demo_net_def demo_store_def
      Transformer_init_def set_transpose_def set_channel_swap_def demo_caffe_def
      Extractor_init_def)

lemma demo_tf_constructs: "\<exists>tf. TensorFlowExtractor_init scenario_images alexnet_pb ''fc7'' 2 = Inr tf"
  by (simp add: TensorFlowExtractor_init_def alexnet_layers)

lemma demo_hub_constructs: "\<exists>hub. TensorflowHubExtractor_init scenario_images demo_module ''default'' 2 = Inr hub"
  by (simp add: TensorflowHubExtractor_init_def demo_module_def)

lemma demo_keras_constructs: "\<exists>k. KerasExtractor_init scenario_images demo_keras ''vgg16'' ''fc1'' ''imagenet'' 2 = Inr k"
  by (simp add: KerasExtractor_init_def demo_keras_def model_keys_def Let_def)

section \<open>The length of an extractor\<close>

text \<open>
  Claim C10. For every \<^verbatim>\<open>Extractor\<close> instance, \<^verbatim>\<open>len()\<close> raises
  \<^verbatim>\<open>TypeError\<close>: \<^verbatim>\<open>__len__\<close> hands \<^verbatim>\<open>self.images\<close> to \<^verbatim>\<open>len\<close>, and
  \<^verbatim>\<open>self.images\<close> is the generator that \<^verbatim>\<open>_batch_images\<close> returned, which has no
  length. This holds for the base class and for whatever each of the four subclass
  constructors returns (none of them assigns \<^verbatim>\<open>self.images\<close> or defines
  \<^verbatim>\<open>__len__\<close>), so \<^verbatim>\<open>__len__\<close> never gives a number of batches.
\<close>

theorem Extractor_len_TypeError:
  "Extractor_len (Extractor_init imgs batch_size) = Inl TypeError
   \<and> (TensorFlowExtractor_init imgs model_path layer batch_size = Inr tf
        \<longrightarrow> Extractor_len tf = Inl TypeError)
   \<and> (TensorflowHubExtractor_init imgs module_path layer batch_size = Inr hub
        \<longrightarrow> Extractor_len hub = Inl TypeError)
   \<and> (KerasExtractor_init imgs lib model_key layer weights_path batch_size = Inr keras
        \<longrightarrow> Extractor_len keras = Inl TypeError)
   \<and> (CaffeExtractor_init imgs loaded_net layer batch_size s = Inr caffe
        \<longrightarrow> Extractor_len caffe = Inl TypeError)"
proof -
  have base: "Extractor_len (Extractor_init imgs batch_size) = Inl TypeError"
    by (simp add: Extractor_len_def Extractor_init_def)
  have tf: "Extractor_len tf = Inl TypeError"
    if "TensorFlowExtractor_init imgs model_path layer batch_size = Inr tf"
    using that
    by (auto simp: TensorFlowExtractor_init_def Extractor_len_def Extractor_init_def Let_def
        split: sum.splits option.splits)
  have hub: "Extractor_len hub = Inl TypeError"
    if "TensorflowHubExtractor_init imgs module_path layer batch_size = Inr hub"
    using that
    by (auto simp: TensorflowHubExtractor_init_def Extractor_len_def Extractor_init_def Let_def
        split: if_splits)
  have keras: "Extractor_len keras = Inl TypeError"
    if "KerasExtractor_init imgs lib model_key layer weights_path batch_size = Inr keras"
    using that
    by (auto simp: KerasExtractor_init_def Extractor_len_def Extractor_init_def Let_def
        split: if_splits)
  have caffe: "Extractor_len caffe = Inl TypeError"
    if "CaffeExtractor_init imgs loaded_net layer batch_size s = Inr caffe"
    using that
    by (auto simp: CaffeExtractor_init_def Extractor_len_def Extractor_init_def Let_def
        split: sum.splits)
  show ?thesis using base tf hub keras caffe by blast
qed

theorem Extractor_len_TypeError_witness:
  "(\<exists>tf. TensorFlowExtractor_init scenario_images alexnet_pb ''fc7'' 2 = Inr tf
         \<and> Extractor_len tf = Inl TypeError)
   \<and> (\<exists>hub. TensorflowHubExtractor_init scenario_images demo_module ''default'' 2 = Inr hub
         \<and> Extractor_len hub = Inl TypeError)
   \<and> (\<exists>keras. KerasExtractor_init scenario_images demo_keras ''vgg16'' ''fc1'' ''imagenet'' 2
                 = Inr keras
         \<and> Extractor_len keras = Inl TypeError)
   \<and> (CaffeExtractor_init scenario_images demo_net ''conv1'' 2 demo_store = Inr demo_caffe
         \<and> Extractor_len demo_caffe = Inl TypeError)"
proof -
  obtain tf where tf: "TensorFlowExtractor_init scenario_images alexnet_pb ''fc7'' 2 = Inr tf"
    using demo_tf_constructs by blast
  obtain hub where
    hub: "TensorflowHubExtractor_init scenario_images demo_module ''default'' 2 = Inr hub"
    using demo_hub_constructs by blast
  obtain keras where
    keras: "KerasExtractor_init scenario_images demo_keras ''vgg16'' ''fc1'' ''imagenet'' 2
              = Inr keras"
    using demo_keras_constructs by blast
  note caffe = demo_caffe_init
  have "Extractor_len tf = Inl TypeError"
    using Extractor_len_TypeError [where imgs = scenario_images and batch_size = 2
        and model_path = alexnet_pb and layer = "''fc7''" and tf = tf] tf by blast
  moreover have "Extractor_len hub = Inl TypeError"
    using Extractor_len_TypeError [where imgs = scenario_images and batch_size = 2
        and module_path = demo_module and layer = "''default''" and hub = hub] hub by blast
  moreover have "Extractor_len keras = Inl TypeError"
    using Extractor_len_TypeError [where imgs = scenario_images and batch_size = 2
        and lib = demo_keras and model_key = "''vgg16''" and layer = "''fc1''"
        and weights_path = "''imagenet''" and keras = keras] keras by blast
  moreover have "Extractor_len demo_caffe = Inl TypeError"
    using Extractor_len_TypeError [where imgs = scenario_images and batch_size = 2
        and loaded_net = demo_net and layer = "''conv1''" and s = demo_store
        and caffe = demo_caffe] caffe by blast
  ultimately show ?thesis using tf hub keras caffe by blast
qed

section \<open>Layer discovery in the graph-based variant\<close>

lemma py_in_str_sublist: "py_in_str e s \<longleftrightarrow> sublist e s"
  by (induction s) (auto simp: sublist_Cons_right)

lemma ignore_tensor_iff:
  "ignore_tensor name \<longleftrightarrow> (\<exists>e \<in> set ignored_tensor_endings. sublist e name)"
  by (simp add: ignore_tensor_def list_ex_iff py_in_str_sublist)

lemma py_split_nonempty: "py_split sep s \<noteq> []"
  by (induction s) (auto split: list.splits)

lemma py_split_no_sep:
  assumes "sep \<notin> set t"
  shows "py_split sep t = [t]"
  using assms by (induction t) auto

lemma py_split_append:
  assumes "sep \<notin> set t"
  shows "py_split sep (s @ t) = butlast (py_split sep s) @ [last (py_split sep s) @ t]"
proof (induction s)
  case Nil
  show ?case using py_split_no_sep [OF assms] by simp
next
  case (Cons c s)
  obtain v vs where p: "py_split sep s = v # vs"
    using py_split_nonempty [of sep s] by (cases "py_split sep s") auto
  show ?case
  proof (cases "c = sep")
    case True
    then show ?thesis using Cons p by simp
  next
    case False
    then show ?thesis using Cons p by (cases vs) simp_all
  qed
qed

lemma layer_key_tensor: "layer_key (op @ '':0'') = last (py_split CHR ''/'' op)"
proof -
  have "CHR ''/'' \<notin> set '':0''" by simp
  then have "last (py_split CHR ''/'' (op @ '':0'')) = last (py_split CHR ''/'' op) @ '':0''"
    by (simp add: py_split_append)
  then show ?thesis by (simp add: layer_key_def drop_last2_def)
qed

lemma keys_layer_dict_of:
  "fst ` set (layer_dict_of ts d) = fst ` set d \<union> layer_key ` set ts"
  by (induction ts arbitrary: d) (auto simp: dom_update)

lemma map_of_layer_dict_of:
  assumes "map_of (layer_dict_of ts d) k = Some t"
  shows "map_of d k = Some t \<or> (t \<in> set ts \<and> layer_key t = k)"
  using assms
proof (induction ts arbitrary: d)
  case Nil
  then show ?case by simp
next
  case (Cons x ts)
  from Cons.IH [OF Cons.prems [simplified]]
  show ?case by (auto simp: update_conv' split: if_splits)
qed

lemma input_and_layers_dict:
  assumes "input_and_layers g = Inr (inp, layers)"
  shows "layers = layer_dict_of
           (map (\<lambda>op. op @ '':0'') (filter (\<lambda>op. \<not> ignore_tensor op) (operations g))) []"
  using assms
  by (auto simp: input_and_layers_def Let_def split: list.splits option.splits sum.splits)

text \<open>
  Claim C5, as the code has it. Layer discovery goes through all operations of the loaded
  graph, leaves out exactly those whose name contains one of the listed strings at any
  position (not only at its end), and enters each remaining node under the last
  \<^verbatim>\<open>/\<close>-separated segment of its name: the keys of the dictionary are exactly the
  trailing segments of the remaining nodes, and every entry holds the first output of a
  remaining node with that trailing segment.
\<close>

theorem input_and_layers_discovery:
  assumes "input_and_layers g = Inr (inp, layers)"
  shows "(\<forall>name. ignore_tensor name
            \<longleftrightarrow> (\<exists>e \<in> set ignored_tensor_endings. \<exists>before after. name = before @ e @ after))
         \<and> fst ` set layers
             = (\<lambda>op. last (py_split CHR ''/'' op))
                 ` {op \<in> set (operations g). \<not> ignore_tensor op}
         \<and> (\<forall>label tensor. map_of layers label = Some tensor
              \<longrightarrow> (\<exists>op \<in> set (operations g). \<not> ignore_tensor op \<and> tensor = op @ '':0''
                    \<and> label = last (py_split CHR ''/'' op)))"
proof -
  let ?kept = "filter (\<lambda>op. \<not> ignore_tensor op) (operations g)"
  let ?names = "map (\<lambda>op. op @ '':0'') ?kept"
  have layers: "layers = layer_dict_of ?names []"
    by (rule input_and_layers_dict [OF assms])
  have rule: "\<forall>name. ignore_tensor name
      \<longleftrightarrow> (\<exists>e \<in> set ignored_tensor_endings. \<exists>before after. name = before @ e @ after)"
    by (simp add: ignore_tensor_iff sublist_def)
  have "fst ` set layers = layer_key ` set ?names"
    using keys_layer_dict_of [of ?names "[]"] layers by simp
  also have "\<dots> = (\<lambda>op. last (py_split CHR ''/'' op)) ` set ?kept"
    by (simp add: image_image layer_key_tensor)
  finally have keys: "fst ` set layers
      = (\<lambda>op. last (py_split CHR ''/'' op)) ` {op \<in> set (operations g). \<not> ignore_tensor op}"
    by simp
  have entries: "\<exists>op \<in> set (operations g). \<not> ignore_tensor op \<and> tensor = op @ '':0''
      \<and> label = last (py_split CHR ''/'' op)"
    if "map_of layers label = Some tensor" for label tensor
  proof -
    have "tensor \<in> set ?names \<and> layer_key tensor = label"
      using map_of_layer_dict_of [of ?names "[]" label tensor] that layers by simp
    then obtain op where "op \<in> set ?kept" "tensor = op @ '':0''" "layer_key tensor = label"
      by auto
    then show ?thesis using layer_key_tensor [of op] by auto
  qed
  show ?thesis using rule keys entries by blast
qed

theorem input_and_layers_discovery_witness:
  "input_and_layers (load_graph alexnet_pb)
     = Inr (''extractor/input:0'',
            [(''conv1'', ''extractor/conv1/conv1:0''), (''fc7'', ''extractor/fc7/fc7:0'')])
   \<and> fst ` set [(''conv1'', ''extractor/conv1/conv1:0''), (''fc7'', ''extractor/fc7/fc7:0'')]
       = (\<lambda>op. last (py_split CHR ''/'' op))
           ` {op \<in> set (operations (load_graph alexnet_pb)). \<not> ignore_tensor op}"
  using input_and_layers_discovery [OF alexnet_layers] alexnet_layers by blast

text \<open>
  Claim C5 as stated fails: the normalisation node \<^verbatim>\<open>extractor/norm1\<close> is left out by
  the code although its name ends in none of the listed strings.
\<close>

theorem ignore_tensor_not_by_ending:
  "ignore_tensor ''extractor/norm1'' \<and> \<not> excluded_by_ending ''extractor/norm1''"
  by (simp add: ignore_tensor_def excluded_by_ending_def ignored_tensor_endings_def
      suffix_to_prefix)

section \<open>Preprocessing in the legacy variant\<close>

lemma sort_201: "sort [2, 0, 1 :: nat] = [0, 1, 2]"
  by code_simp

lemma nd_transpose_201:
  assumes "dims3 x = [H, W, C]"
  shows "nd_transpose [2, 0, 1] x = Inr (channel_first x)"
  using assms by (simp add: nd_transpose_def channel_first_def sort_201)

lemma length_channel_first: "length (channel_first x) = dims3 x ! 2"
  by (simp add: channel_first_def)

lemma swap_channels_210:
  assumes "length y = 3"
  shows "swap_channels [2, 1, 0] y = Inr (rev y)"
proof -
  obtain a b c where "y = [a, b, c]"
    using assms by (auto simp: length_Suc_conv numeral_3_eq_3)
  then show ?thesis by (simp add: swap_channels_def)
qed

lemma CaffeExtractor_init_transformer:
  assumes "CaffeExtractor_init imgs loaded_net layer batch_size s = Inr self"
  shows "transpose_order (transformer self) = Some [2, 0, 1]
       \<and> channel_swap (transformer self) = Some [2, 1, 0]
       \<and> raw_scale (transformer self) = None
       \<and> mean (transformer self) = None
       \<and> input_scale (transformer self) = None
       \<and> net self = loaded_net \<and> caffe_layer self = layer"
  using assms
  by (auto simp: CaffeExtractor_init_def Transformer_init_def set_transpose_def
      set_channel_swap_def Let_def split: sum.splits if_splits list.splits)

text \<open>
  For every constructed legacy extractor the transformer has no mean set, and
  preprocessing one image of three channels (converted to floating point and brought to
  the input size of the network) transposes it to channel-first layout and reverses the
  order of the channels; nothing is subtracted.
\<close>

lemma caffe_preprocess_image:
  assumes "CaffeExtractor_init imgs loaded_net layer batch_size s = Inr self"
    and "x = to_input_size (resize_image loaded_net) (transformer self) img"
    and "dims3 x = [H, W, 3]"
  shows "mean (transformer self) = None
       \<and> CaffeExtractor_preprocess self img = Inr (rev (channel_first x))"
proof -
  note t = CaffeExtractor_init_transformer [OF assms(1)]
  have tr: "nd_transpose [2, 0, 1] x = Inr (channel_first x)"
    by (rule nd_transpose_201 [OF assms(3)])
  have "length (channel_first x) = 3"
    using assms(3) by (simp add: length_channel_first)
  then have sw: "swap_channels [2, 1, 0] (channel_first x) = Inr (rev (channel_first x))"
    by (rule swap_channels_210)
  have "CaffeExtractor_preprocess self img = Inr (rev (channel_first x))"
    using t tr sw assms(2)
    by (simp add: CaffeExtractor_preprocess_def Transformer_preprocess_def Let_def)
  then show ?thesis using t by simp
qed

lemma demo_to_input_size:
  "to_input_size (resize_image demo_net) (transformer demo_caffe) [[[1, 2, 3]]]
     = [[[1, 2, 3 :: int]]]"
  by (simp add: to_input_size_def demo_caffe_def demo_net_def astype_float_def dims3_def)

lemma demo_channel_first:
  "rev (channel_first [[[1, 2, 3 :: int]]]) = [[[3]], [[2]], [[1]]]"
  by code_simp

lemma forward_frame:
  assumes "a \<notin> blob_addr n ` set names"
  shows "forward n d names s a = s a"
  using assms by (induction names arbitrary: s) auto

lemma dims3_three: "\<exists>H W C. dims3 x = [H, W, C]"
  by (simp add: dims3_def split: list.splits)

lemma nd_transpose_channel_first: "nd_transpose [2, 0, 1] x = Inr (channel_first x)"
proof -
  obtain H W C where "dims3 x = [H, W, C]"
    using dims3_three [of x] by blast
  then show ?thesis by (rule nd_transpose_201)
qed

lemma CaffeExtractor_preprocess_rgb:
  assumes "CaffeExtractor_init stream loaded_net layer batch_size s0 = Inr self"
    and "dims3 (to_input_size (resize_image loaded_net) (transformer self) img) ! 2 = 3"
  shows "CaffeExtractor_preprocess self img
         = Inr (rev (channel_first (to_input_size (resize_image loaded_net) (transformer self) img)))"
proof -
  let ?x = "to_input_size (resize_image loaded_net) (transformer self) img"
  obtain H W C where d: "dims3 ?x = [H, W, C]"
    using dims3_three [of ?x] by blast
  then have "dims3 ?x = [H, W, 3]" using assms(2) by simp
  from caffe_preprocess_image [OF assms(1) refl this] show ?thesis by simp
qed

lemma preprocess_all_map:
  assumes "preprocess_all f xs = Inr ys" and "list_all (\<lambda>x. f x = Inr (g x)) xs"
  shows "ys = map g xs"
  using assms by (induction xs arbitrary: ys) (auto split: sum.splits)

lemma forward_written:
  assumes "name \<in> set names" "name \<noteq> ''data''" "inj_on (blob_addr n) (insert name (set names))"
  shows "forward n d names s (blob_addr n name) = Some (Blob (forward_blob n d name))"
  using assms
proof (induction names arbitrary: s)
  case Nil
  then show ?case by simp
next
  case (Cons a names)
  have inj: "inj_on (blob_addr n) (insert name (set names))"
    using Cons.prems(3) by (auto simp: inj_on_def)
  show ?case
  proof (cases "name \<in> set names")
    case True
    then show ?thesis using Cons.IH [OF True Cons.prems(2) inj] by simp
  next
    case False
    then have a: "a = name" using Cons.prems(1) by simp
    have "blob_addr n name \<notin> blob_addr n ` set names"
      using False Cons.prems(3) by (auto simp: inj_on_def)
    then show ?thesis using a Cons.prems(2) by (simp add: forward_frame)
  qed
qed

lemma forward_data_kept:
  assumes "inj_on (blob_addr n) (insert ''data'' (set names))"
  shows "forward n d names s (blob_addr n ''data'') = s (blob_addr n ''data'')"
  using assms
proof (induction names arbitrary: s)
  case Nil
  then show ?case by simp
next
  case (Cons a names)
  have inj: "inj_on (blob_addr n) (insert ''data'' (set names))"
    using Cons.prems by (auto simp: inj_on_def)
  have "a \<noteq> ''data'' \<Longrightarrow> blob_addr n a \<noteq> blob_addr n ''data''"
    using Cons.prems by (auto simp: inj_on_def)
  then show ?case using Cons.IH [OF inj] by auto
qed


lemma blobs_Inr:
  assumes "blobs n s name = Inr a"
  shows "name \<in> set (blob_names n) \<and> s (blob_addr n name) = Some (Blob a)"
  using assms by (auto simp: blobs_def split: if_splits option.splits py_obj.splits)

text \<open>
  Claim C7, as the code has it. In the legacy variant, whenever \<^verbatim>\<open>extract_features\<close>
  returns, every image of the batch has been preprocessed before the forward pass by
  transposing it to channel-first layout and reversing the order of its channels, and
  no pixel mean has been subtracted: the transformer has no mean set, the blob
  \<^verbatim>\<open>data\<close> holds, image after image, the channel-reversed channel-first images
  (each first converted to floating point and brought to the input size of the network),
  and the returned features are the rows of what the forward pass computes from this
  content for the chosen blob. The images have three channels, and distinct blobs of the
  network live at distinct addresses.
\<close>

theorem caffe_forward_sees_preprocessed:
  assumes init: "CaffeExtractor_init stream loaded_net layer batch_size s0 = Inr self"
    and inj: "inj_on (blob_addr loaded_net) (set (blob_names loaded_net))"
    and read: "read_batch s tuple_batch = Inr (names, tss, imgs)"
    and run: "CaffeExtractor_extract_features self tuple_batch s = (Inr recs, s')"
    and rgb: "list_all (\<lambda>img. dims3 (to_input_size (resize_image loaded_net)
                                          (transformer self) img) ! 2 = 3) imgs"
    and pixels: "pixels = concat (map (\<lambda>img. concat (concat (rev (channel_first
                   (to_input_size (resize_image loaded_net) (transformer self) img))))) imgs)"
  shows "mean (transformer self) = None
       \<and> (\<exists>sh. s' (blob_addr loaded_net ''data'') = Some (Blob (NdArray sh pixels))
              \<and> feature_tuples names tss
                   (if layer = ''data'' then NdArray sh pixels
                    else forward_blob loaded_net (NdArray sh pixels) layer) = Inr recs)"
proof -
  note t = CaffeExtractor_init_transformer [OF init]
  have n: "net self = loaded_net" and l: "caffe_layer self = layer" using t by simp_all
  let ?g = "\<lambda>img. rev (channel_first (to_input_size (resize_image loaded_net)
                                         (transformer self) img))"
  have each: "list_all (\<lambda>img. CaffeExtractor_preprocess self img = Inr (?g img)) imgs"
    using rgb CaffeExtractor_preprocess_rgb [OF init] by (simp add: list_all_iff)
  obtain data_blob where db: "blobs loaded_net s ''data'' = Inr data_blob"
    using run read n
    by (cases "blobs loaded_net s ''data''")
       (auto simp: CaffeExtractor_extract_features_def)
  obtain k c h w rest where sh: "shape data_blob = k # c # h # w # rest"
    using run read n db
    by (auto simp: CaffeExtractor_extract_features_def Let_def split: list.splits)
  obtain pre where pa: "preprocess_all (CaffeExtractor_preprocess self) imgs = Inr pre"
    using run read n db sh
    by (cases "preprocess_all (CaffeExtractor_preprocess self) imgs")
       (auto simp: CaffeExtractor_extract_features_def Let_def)
  have pre: "pre = map ?g imgs" by (rule preprocess_all_map [OF pa each])
  define data where "data = NdArray [length imgs, c, h, w] pixels"
  have data: "NdArray [length imgs, c, h, w] (concat (map (\<lambda>x. concat (concat x)) pre)) = data"
    by (simp add: data_def pixels pre comp_def)
  define s1 where "s1 = s(blob_addr loaded_net ''data'' \<mapsto>
      Blob (NdArray [length imgs, c, h, w] (replicate (prod_list [length imgs, c, h, w]) 0)))"
  define s3 where "s3 = forward loaded_net data (blob_names loaded_net)
      (s1(blob_addr loaded_net ''data'' \<mapsto> Blob data))"
  obtain feature_batch where fb: "blobs loaded_net s3 layer = Inr feature_batch"
    and ft: "feature_tuples names tss feature_batch = Inr recs" and s': "s' = s3"
    using run read n l db sh pa data
    by (cases "blobs loaded_net s3 layer")
       (auto simp: CaffeExtractor_extract_features_def Let_def s1_def s3_def
          split: if_splits)
  have dn: "''data'' \<in> set (blob_names loaded_net)" using blobs_Inr [OF db] by simp
  have ln: "layer \<in> set (blob_names loaded_net)"
    and at: "s3 (blob_addr loaded_net layer) = Some (Blob feature_batch)"
    using blobs_Inr [OF fb] by simp_all
  have inj_d: "inj_on (blob_addr loaded_net) (insert ''data'' (set (blob_names loaded_net)))"
    using inj dn by (simp add: insert_absorb)
  have inj_l: "inj_on (blob_addr loaded_net) (insert layer (set (blob_names loaded_net)))"
    using inj ln by (simp add: insert_absorb)
  have kept: "s3 (blob_addr loaded_net ''data'') = Some (Blob data)"
    unfolding s3_def by (simp add: forward_data_kept [OF inj_d])
  have "feature_batch = (if layer = ''data'' then data else forward_blob loaded_net data layer)"
  proof (cases "layer = ''data''")
    case True
    then show ?thesis using at kept by simp
  next
    case False
    have "s3 (blob_addr loaded_net layer) = Some (Blob (forward_blob loaded_net data layer))"
      unfolding s3_def by (rule forward_written [OF ln False inj_l])
    then show ?thesis using at False by simp
  qed
  then show ?thesis using t kept ft s' unfolding data_def by auto
qed

lemma demo_net_inj: "inj_on (blob_addr demo_net) (set (blob_names demo_net))"
  by (simp add: demo_net_def)

lemma demo_read_batch:
  "read_batch demo_store demo_batch
     = Inr ([''a'', ''b''], [0, 1], [[[[0, 255, 7]]], [[[1, 2, 3]]]])"
  by (simp add: read_batch_def demo_store_def demo_batch_def)

lemma demo_rgb:
  "list_all (\<lambda>img. dims3 (to_input_size (resize_image demo_net) (transformer demo_caffe) img) ! 2
                      = 3) [[[[0, 255, 7]]], [[[1, 2, 3]]]]"
  by (simp add: to_input_size_def demo_caffe_def demo_net_def astype_float_def dims3_def)

lemma demo_pixels:
  "concat (map (\<lambda>img. concat (concat (rev (channel_first
       (to_input_size (resize_image demo_net) (transformer demo_caffe) img)))))
     [[[[0, 255, 7]]], [[[1, 2, 3]]]]) = [7, 255, 0, 3, 2, 1 :: int]"
  by code_simp

lemma demo_caffe_run:
  "fst (CaffeExtractor_extract_features demo_caffe demo_batch demo_store)
     = Inr [(''a'', 0, NdArray [3, 1, 1] [7, 255, 0]), (''b'', 1, NdArray [3, 1, 1] [3, 2, 1])]"
  by code_simp

theorem caffe_forward_sees_preprocessed_witness:
  "CaffeExtractor_init scenario_images demo_net ''conv1'' 2 demo_store = Inr demo_caffe
   \<and> inj_on (blob_addr demo_net) (set (blob_names demo_net))
   \<and> read_batch demo_store demo_batch
       = Inr ([''a'', ''b''], [0, 1], [[[[0, 255, 7]]], [[[1, 2, 3]]]])
   \<and> fst (CaffeExtractor_extract_features demo_caffe demo_batch demo_store)
       = Inr [(''a'', 0, NdArray [3, 1, 1] [7, 255, 0]), (''b'', 1, NdArray [3, 1, 1] [3, 2, 1])]
   \<and> mean (transformer demo_caffe) = None
   \<and> (\<exists>sh. snd (CaffeExtractor_extract_features demo_caffe demo_batch demo_store) 10
              = Some (Blob (NdArray sh [7, 255, 0, 3, 2, 1])))"
proof -
  have run: "CaffeExtractor_extract_features demo_caffe demo_batch demo_store
      = (Inr [(''a'', 0, NdArray [3, 1, 1] [7, 255, 0]), (''b'', 1, NdArray [3, 1, 1] [3, 2, 1])],
         snd (CaffeExtractor_extract_features demo_caffe demo_batch demo_store))"
    using demo_caffe_run by (metis prod.collapse)
  have a: "blob_addr demo_net ''data'' = 10" by (simp add: demo_net_def)
  from caffe_forward_sees_preprocessed
    [OF demo_caffe_init demo_net_inj demo_read_batch run demo_rgb demo_pixels [symmetric]]
  show ?thesis
    using demo_caffe_init demo_net_inj demo_read_batch demo_caffe_run a by auto
qed

lemma demo_preprocess:
  "CaffeExtractor_preprocess demo_caffe [[[1, 2, 3]]] = Inr [[[3]], [[2]], [[1]]]"
  by code_simp

lemma demo_claimed:
  "claimed_preprocess [104, 117, 123] [[[1, 2, 3]]] = [[[-101]], [[-115]], [[-122 :: int]]]"
  by code_simp

lemma demo_data_blob:
  "snd (CaffeExtractor_extract_features demo_caffe demo_batch demo_store) 10
     = Some (Blob (NdArray [2, 3, 1, 1] [7, 255, 0, 3, 2, 1]))"
  by code_simp

lemma demo_claimed_data:
  "concat (concat (claimed_preprocess [104, 117, 123] [[[0, 255, 7]]]))
     @ concat (concat (claimed_preprocess [104, 117, 123] [[[1, 2, 3]]]))
   = [-97, 138, -123, -101, -115, -122 :: int]"
  by code_simp

text \<open>
  Claim C7 as stated fails: for the one-pixel image \<open>(1, 2, 3)\<close> the extractor that the
  constructor returns gives the channels reversed and nothing else, and after
  \<^verbatim>\<open>extract_features\<close> on the batch of the pixels \<open>(0, 255, 7)\<close> and \<open>(1, 2, 3)\<close> the
  blob \<^verbatim>\<open>data\<close> holds the reversed channels unchanged, while the claimed preprocessing
  with the pixel mean \<open>(104, 117, 123)\<close> would give other values.
\<close>

theorem caffe_preprocess_not_claimed:
  "CaffeExtractor_init scenario_images demo_net ''conv1'' 2 demo_store = Inr demo_caffe
   \<and> CaffeExtractor_preprocess demo_caffe [[[1, 2, 3]]] = Inr [[[3]], [[2]], [[1]]]
   \<and> CaffeExtractor_preprocess demo_caffe [[[1, 2, 3]]]
       \<noteq> Inr (claimed_preprocess [104, 117, 123] [[[1, 2, 3]]])
   \<and> snd (CaffeExtractor_extract_features demo_caffe demo_batch demo_store) 10
       = Some (Blob (NdArray [2, 3, 1, 1] [7, 255, 0, 3, 2, 1]))
   \<and> snd (CaffeExtractor_extract_features demo_caffe demo_batch demo_store) 10
       \<noteq> Some (Blob (NdArray [2, 3, 1, 1]
             (concat (concat (claimed_preprocess [104, 117, 123] [[[0, 255, 7]]]))
               @ concat (concat (claimed_preprocess [104, 117, 123] [[[1, 2, 3]]])))))"
  using demo_caffe_init demo_preprocess demo_claimed demo_data_blob demo_claimed_data by simp

section \<open>What \<^verbatim>\<open>extract_features\<close> returns\<close>

lemma zip3_features:
  assumes "(n, t, f) \<in> set (zip3 names tss fs)"
  shows "f \<in> set fs"
  using assms by (induction names tss fs rule: zip3.induct) auto

lemma length_chunks_of: "length (chunks_of n k xs) = n"
  by (induction n k xs rule: chunks_of.induct) auto

lemma rows_2d:
  assumes "rows (NdArray [n, d] xs) = Inr fs"
  shows "length fs = n \<and> (\<forall>f \<in> set fs. shape f = [d])"
  using assms by (auto simp: rows_def length_chunks_of)

lemma feature_tuples_flat:
  assumes "feature_tuples names tss (NdArray [n, d] xs) = Inr recs"
  shows "\<forall>(name, ts, f) \<in> set recs. flat_vector d f"
proof -
  obtain fs where fs: "rows (NdArray [n, d] xs) = Inr fs" and recs: "recs = zip3 names tss fs"
    using assms by (auto simp: feature_tuples_def split: sum.splits)
  show ?thesis
    using rows_2d [OF fs] zip3_features recs by (fastforce simp: flat_vector_def)
qed

text \<open>
  The graph-based and the named-architecture variant flatten: whatever they return
  consists of flat vectors of one dimension.
\<close>

lemma TensorFlowExtractor_features_flat:
  assumes "fst (TensorFlowExtractor_extract_features self tuple_batch s) = Inr recs"
  shows "\<exists>D. \<forall>(name, ts, f) \<in> set recs. flat_vector D f"
  using assms feature_tuples_flat
  by (auto simp: TensorFlowExtractor_extract_features_def tf_flatten_def Let_def
      split: sum.splits if_splits prod.splits) blast

lemma KerasExtractor_features_flat:
  assumes "fst (KerasExtractor_extract_features self tuple_batch s) = Inr recs"
  shows "\<exists>D. \<forall>(name, ts, f) \<in> set recs. flat_vector D f"
  using assms feature_tuples_flat
  by (auto simp: KerasExtractor_extract_features_def np_flatten_def Let_def
      split: sum.splits if_splits prod.splits) blast

lemma demo_caffe_features:
  "fst (CaffeExtractor_extract_features demo_caffe demo_batch demo_store)
     = Inr [(''a'', 0, NdArray [3, 1, 1] [7, 255, 0]), (''b'', 1, NdArray [3, 1, 1] [3, 2, 1])]"
  by code_simp

lemma demo_hub_features:
  "(case TensorflowHubExtractor_init scenario_images demo_module ''block1'' 2 of
      Inl e \<Rightarrow> Inl e
    | Inr self \<Rightarrow> fst (TensorflowHubExtractor_extract_features self demo_batch demo_store))
     = Inr [(''a'', 0, NdArray [1, 1, 3] [7, 255, 0]), (''b'', 1, NdArray [1, 1, 3] [3, 2, 1])]"
  by code_simp

text \<open>
  Claim C3 says that for every backend variant \<^verbatim>\<open>extract_features\<close> returns one
  record per sample, paired with the identifiers in order, each per-sample output
  reshaped to a flat vector. The legacy variant and the prepackaged-module variant
  reshape nothing: for a layer whose output has rank 4 the features of each record keep
  rank 3. Here the code is run on a batch of two samples, the legacy extractor built for
  the blob \<^verbatim>\<open>conv1\<close> and the module extractor for the output \<^verbatim>\<open>block1\<close>.
\<close>

theorem extract_features_not_flattened:
  "CaffeExtractor_init scenario_images demo_net ''conv1'' 2 demo_store = Inr demo_caffe
   \<and> fst (CaffeExtractor_extract_features demo_caffe demo_batch demo_store)
       = Inr [(''a'', 0, NdArray [3, 1, 1] [7, 255, 0]), (''b'', 1, NdArray [3, 1, 1] [3, 2, 1])]
   \<and> \<not> flat_vector 3 (NdArray [3, 1, 1] [7, 255, 0 :: int])
   \<and> (case TensorflowHubExtractor_init scenario_images demo_module ''block1'' 2 of
         Inl e \<Rightarrow> Inl e
       | Inr self \<Rightarrow> fst (TensorflowHubExtractor_extract_features self demo_batch demo_store))
       = Inr [(''a'', 0, NdArray [1, 1, 3] [7, 255, 0]), (''b'', 1, NdArray [1, 1, 3] [3, 2, 1])]
   \<and> \<not> flat_vector 3 (NdArray [1, 1, 3] [7, 255, 0 :: int])"
  using demo_caffe_init demo_caffe_features demo_hub_features
  by (simp add: flat_vector_def)

section \<open>Validation of the layer at construction\<close>

text \<open>
  The graph-based and the named-architecture variant check the layer: what their
  constructors return has the layer among the available ones.
\<close>

lemma TensorFlowExtractor_init_validates:
  assumes "TensorFlowExtractor_init imgs model_path layer batch_size = Inr self"
  shows "layer \<in> set (tf_layers self)"
  using assms
  by (auto simp: TensorFlowExtractor_init_def Let_def map_of_eq_None_iff image_iff
      split: sum.splits option.splits dest!: map_of_SomeD) force

lemma KerasExtractor_init_validates:
  assumes "KerasExtractor_init imgs lib model_key layer weights_path batch_size = Inr self"
  shows "layer \<in> set (keras_layers self)"
  using assms by (auto simp: KerasExtractor_init_def Let_def split: if_splits)

lemma caffe_absent_init:
  "CaffeExtractor_init scenario_images demo_net ''nolayer'' 2 demo_store
     = Inr (demo_caffe\<lparr>caffe_layer := ''nolayer''\<rparr>)"
  by (simp add: CaffeExtractor_init_def blobs_def demo_net_def demo_store_def
      Transformer_init_def set_transpose_def set_channel_swap_def demo_caffe_def
      Extractor_init_def)

lemma caffe_absent_extract:
  "fst (CaffeExtractor_extract_features (demo_caffe\<lparr>caffe_layer := ''nolayer''\<rparr>)
          demo_batch demo_store) = Inl KeyError"
  by code_simp

text \<open>
  Claim C4 says that every backend variant fails at construction time for a layer that
  is not available, the prepackaged-module variant included. The constructor of the
  prepackaged-module variant returns an extractor with neither \<^verbatim>\<open>features\<close> nor
  \<^verbatim>\<open>session\<close> set, and the constructor of the legacy variant checks nothing; both
  fail only when the first batch is extracted (for the legacy variant after the forward
  pass). Here the code is run with the layer \<^verbatim>\<open>nolayer\<close>.
\<close>

theorem absent_layer_constructs:
  "(\<exists>self. TensorflowHubExtractor_init scenario_images demo_module ''nolayer'' 2 = Inr self
       \<and> ''nolayer'' \<notin> set (hub_layers self)
       \<and> hub_session self = None \<and> hub_features self = None
       \<and> TensorflowHubExtractor_extract_features self demo_batch demo_store
           = (Inl AttributeError, demo_store))
   \<and> (\<exists>self. CaffeExtractor_init scenario_images demo_net ''nolayer'' 2 demo_store = Inr self
       \<and> ''nolayer'' \<notin> set (caffe_layers self)
       \<and> fst (CaffeExtractor_extract_features self demo_batch demo_store) = Inl KeyError)"
proof -
  have hub: "\<exists>self. TensorflowHubExtractor_init scenario_images demo_module ''nolayer'' 2
               = Inr self
       \<and> ''nolayer'' \<notin> set (hub_layers self)
       \<and> hub_session self = None \<and> hub_features self = None
       \<and> TensorflowHubExtractor_extract_features self demo_batch demo_store
           = (Inl AttributeError, demo_store)"
    by (simp add: TensorflowHubExtractor_init_def demo_module_def
        TensorflowHubExtractor_extract_features_def read_batch_def demo_batch_def
        demo_store_def)
  have "''nolayer'' \<notin> set (caffe_layers (demo_caffe\<lparr>caffe_layer := ''nolayer''\<rparr>))"
    by (simp add: demo_caffe_def)
  then show ?thesis using hub caffe_absent_init caffe_absent_extract by blast
qed

section \<open>The message of a failed construction\<close>

lemma keras_message:
  "KerasExtractor_init scenario_images demo_keras ''vgg16'' ''nolayer'' ''imagenet'' 2
     = Inl (AssertionError (''Invalid layer key. Available layers: ''
              @ py_repr_list [''input_1'', ''block1_conv1'', ''fc1'']))"
  by (simp add: KerasExtractor_init_def demo_keras_def model_keys_def Let_def)

lemma keras_message_lacks:
  "\<not> py_in_str ''nolayer'' (''Invalid layer key. Available layers: ''
              @ py_repr_list [''input_1'', ''block1_conv1'', ''fc1''])
   \<and> \<not> py_in_str (py_repr_list (sort [''input_1'', ''block1_conv1'', ''fc1'']))
          (''Invalid layer key. Available layers: ''
              @ py_repr_list [''input_1'', ''block1_conv1'', ''fc1''])"
  by code_simp

lemma tf_message:
  "TensorFlowExtractor_init scenario_images alexnet_pb ''nolayer'' 2
     = Inl (AssertionError (py_repr_str ''nolayer''
              @ '' is not a valid layer. Available layers are: ''
              @ py_repr_list [''conv1'', ''fc7'']))"
  by (simp add: TensorFlowExtractor_init_def alexnet_layers)

text \<open>
  The graph-based variant names the layer and the sorted alternatives in every message
  of a failed assertion.
\<close>

lemma input_and_layers_no_assertion: "input_and_layers g \<noteq> Inl (AssertionError msg)"
  by (auto simp: input_and_layers_def get_tensor_by_name_def Let_def
      split: list.splits option.splits sum.splits if_splits)

lemma TensorFlowExtractor_message:
  assumes "TensorFlowExtractor_init imgs model_path layer batch_size = Inl (AssertionError msg)"
  shows "\<exists>inp layers. input_and_layers (load_graph model_path) = Inr (inp, layers)
           \<and> names_layer_and_sorted_alternatives msg layer (map fst layers)"
proof -
  obtain inp layers where il: "input_and_layers (load_graph model_path) = Inr (inp, layers)"
    and msg: "msg = py_repr_str layer @ '' is not a valid layer. Available layers are: ''
                @ py_repr_list (sort (map fst layers))"
    using assms input_and_layers_no_assertion [of "load_graph model_path" msg]
    by (auto simp: TensorFlowExtractor_init_def Let_def split: sum.splits option.splits)
  have "msg = [quote] @ layer @ (quote # '' is not a valid layer. Available layers are: ''
                @ py_repr_list (sort (map fst layers)))"
    using msg by (simp add: py_repr_str_def)
  then have a: "sublist layer msg" unfolding sublist_def by blast
  have "msg = (py_repr_str layer @ '' is not a valid layer. Available layers are: '')
                @ py_repr_list (sort (map fst layers)) @ []"
    using msg by simp
  then have b: "sublist (py_repr_list (sort (map fst layers))) msg" unfolding sublist_def by blast
  show ?thesis
    using il a b by (simp add: names_layer_and_sorted_alternatives_def py_in_str_sublist)
qed

text \<open>
  Claim C6 says that for every backend variant the message of a construction that fails
  for an unavailable layer holds the offending layer name and the sorted list of the
  valid names. The message of the named-architecture variant holds the layer names in
  the order of the model and never the offending name. Here the code is run with the
  layer \<^verbatim>\<open>nolayer\<close>.
\<close>

theorem keras_message_omits_layer:
  "KerasExtractor_init scenario_images demo_keras ''vgg16'' ''nolayer'' ''imagenet'' 2
     = Inl (AssertionError (''Invalid layer key. Available layers: ''
              @ py_repr_list [''input_1'', ''block1_conv1'', ''fc1'']))
   \<and> \<not> names_layer_and_sorted_alternatives
         (''Invalid layer key. Available layers: ''
            @ py_repr_list [''input_1'', ''block1_conv1'', ''fc1''])
         ''nolayer'' [''input_1'', ''block1_conv1'', ''fc1'']"
  using keras_message keras_message_lacks
  by (simp add: names_layer_and_sorted_alternatives_def)

section \<open>The caller's batch is left as it was\<close>

lemma blobs_data_named:
  assumes "blobs n s name = Inr b"
  shows "name \<in> set (blob_names n)"
  using assms by (auto simp: blobs_def split: if_splits)

lemma CaffeExtractor_frame:
  assumes "a \<notin> blob_addr (net self) ` set (blob_names (net self))"
  shows "snd (CaffeExtractor_extract_features self tuple_batch s) a = s a"
proof (cases "blobs (net self) s ''data''")
  case (Inl e)
  then show ?thesis
    by (simp add: CaffeExtractor_extract_features_def split: sum.splits prod.splits)
next
  case (Inr data_blob)
  then have "''data'' \<in> set (blob_names (net self))" by (rule blobs_data_named)
  then have neq: "blob_addr (net self) ''data'' \<noteq> a" using assms by auto
  show ?thesis
    using neq
    by (auto simp: CaffeExtractor_extract_features_def Let_def forward_frame [OF assms]
        split: sum.splits prod.splits list.splits)
qed

text \<open>
  Claim C8. For every backend variant and every batch, \<^verbatim>\<open>extract_features\<close> does not
  change the caller's batch: after the call the store holds, at the address of the name
  list, of the timestamp list and of the image array, the object it held before. The
  batch is the caller's, so none of its three objects is a blob of the legacy network;
  those blobs are the only objects the code writes.
\<close>

theorem extract_features_preserves_batch:
  assumes "tuple_batch = (a_name, a_ts, a_image)"
    and "a \<in> {a_name, a_ts, a_image}"
    and "a \<notin> blob_addr (net caffe) ` set (blob_names (net caffe))"
  shows "snd (TensorFlowExtractor_extract_features tf tuple_batch s) a = s a
       \<and> snd (TensorflowHubExtractor_extract_features hub tuple_batch s) a = s a
       \<and> snd (KerasExtractor_extract_features keras tuple_batch s) a = s a
       \<and> snd (CaffeExtractor_extract_features caffe tuple_batch s) a = s a"
proof -
  have "snd (TensorFlowExtractor_extract_features tf tuple_batch s) = s"
    by (simp add: TensorFlowExtractor_extract_features_def split: sum.splits prod.splits)
  moreover have "snd (TensorflowHubExtractor_extract_features hub tuple_batch s) = s"
    by (simp add: TensorflowHubExtractor_extract_features_def
        split: sum.splits prod.splits option.splits)
  moreover have "snd (KerasExtractor_extract_features keras tuple_batch s) = s"
    by (simp add: KerasExtractor_extract_features_def Let_def split: sum.splits prod.splits)
  ultimately show ?thesis using CaffeExtractor_frame [OF assms(3)] by simp
qed

theorem extract_features_preserves_batch_witness:
  "demo_batch = (0, 1, 2) \<and> (2::nat) \<in> {0, 1, 2}
   \<and> 2 \<notin> blob_addr (net demo_caffe) ` set (blob_names (net demo_caffe))
   \<and> snd (CaffeExtractor_extract_features demo_caffe demo_batch demo_store) 2
       = Some (ImageArray [[[[0, 255, 7]]], [[[1, 2, 3]]]])
   \<and> snd (CaffeExtractor_extract_features demo_caffe demo_batch demo_store) 10
       \<noteq> demo_store 10"
proof -
  have b: "demo_batch = (0, 1, 2)" by (simp add: demo_batch_def)
  have m: "(2::nat) \<in> {0, 1, 2}" by simp
  have d: "2 \<notin> blob_addr (net demo_caffe) ` set (blob_names (net demo_caffe))"
    by (simp add: demo_caffe_def demo_net_def)
  have w: "snd (CaffeExtractor_extract_features demo_caffe demo_batch demo_store) 10
       \<noteq> demo_store 10"
    by code_simp
  have v: "demo_store 2 = Some (ImageArray [[[[0, 255, 7]]], [[[1, 2, 3]]]])"
    by (simp add: demo_store_def)
  from extract_features_preserves_batch [OF b m d, of _ demo_store]
  show ?thesis using b m d w v by simp
qed

end
